theory Spec2Isabelle
  imports Complex_Main
begin

section \<open>Lifecycle synchronisation of bookings, jobs, commissions and invoices\<close>

text \<open>
  A shallow embedding of the mock service layer of the ITAD front end:
  \<^verbatim>\<open>booking.service.ts\<close>, \<open>invoices.service.ts\<close>, \<open>commission.service.ts\<close>,
  \<open>sanitisation.service.ts\<close> and \<open>grading.service.ts\<close>. The services keep their entities in
  module-level arrays that they mutate in place; here the arrays are the fields of a
  \<open>store\<close> record that every operation takes and returns. A thrown \<open>ApiError\<close> is the
  \<open>Inl\<close> branch of the result. The clock, the random generator and the error simulation
  switch read from \<open>localStorage\<close> are the fields of an \<open>env\<close> record.
\<close>

subsection \<open>JavaScript helpers\<close>

text \<open>
  An optional string field (\<open>jobId?: string\<close>) is a \<open>string option\<close>. JavaScript tests such
  a field by truthiness: \<open>undefined\<close> and the empty string are both falsy.
\<close>

fun truthy :: "string option \<Rightarrow> bool" where
  "truthy None = False"
| "truthy (Some s) = (s \<noteq> [])"

text \<open>\<open>x || ''\<close> on an optional string.\<close>

fun or_empty :: "string option \<Rightarrow> string" where
  "or_empty None = []"
| "or_empty (Some s) = s"

text \<open>The double quote character, which the error messages put around status names.\<close>

definition quoted :: "string \<Rightarrow> string" where
  "quoted s = CHR 0x22 # s @ [CHR 0x22]"

text \<open>\<open>Array.prototype.join\<close>.\<close>

fun join :: "string \<Rightarrow> string list \<Rightarrow> string" where
  "join sep [] = []"
| "join sep [x] = x"
| "join sep (x # y # ys) = x @ sep @ join sep (y # ys)"

text \<open>
  \<open>arr.find(p)\<close> is \<^const>\<open>List.find\<close>. The object it returns is a reference into the array,
  so an assignment to one of its fields changes the first element that satisfies \<open>p\<close>:
\<close>

fun update_found :: "('a \<Rightarrow> bool) \<Rightarrow> ('a \<Rightarrow> 'a) \<Rightarrow> 'a list \<Rightarrow> 'a list" where
  "update_found p f [] = []"
| "update_found p f (x # xs) = (if p x then f x # xs else x # update_found p f xs)"

text \<open>Decimal rendering of a non-negative integer (\<open>String(n)\<close>) and \<open>padStart\<close>.\<close>

definition digit_char :: "nat \<Rightarrow> char" where
  "digit_char d = char_of (48 + d)"

function show_nat :: "nat \<Rightarrow> string" where
  "show_nat n = (if n < 10 then [digit_char n] else show_nat (n div 10) @ [digit_char (n mod 10)])"
  by pat_completeness auto
termination
  by (relation "measure id") auto

definition show_int :: "int \<Rightarrow> string" where
  "show_int i = (if i < 0 then CHR ''-'' # show_nat (nat (- i)) else show_nat (nat i))"

definition padStart :: "nat \<Rightarrow> char \<Rightarrow> string \<Rightarrow> string" where
  "padStart n c s = replicate (n - length s) c @ s"

text \<open>
  \<open>Math.round\<close> rounds to the nearest integer, a tie towards plus infinity. The amounts
  of an invoice are modelled as exact rationals; the amounts of a commission are modelled
  as double-precision numbers, which follow.
\<close>

definition Math_round :: "rat \<Rightarrow> int" where
  "Math_round x = \<lfloor>x + 1 / 2\<rfloor>"

subsection \<open>Double-precision numbers\<close>

text \<open>
  A JavaScript number is an IEEE 754 binary64 value: a finite double, which is a rational
  number, or \<open>Infinity\<close>, \<open>-Infinity\<close> or \<open>NaN\<close>. The sign of zero is not modelled: no
  operation embedded here tells \<open>-0\<close> from \<open>0\<close>.
\<close>

datatype number = Fin rat | PosInf | NegInf | NaN

text \<open>The number of binary digits of a natural number.\<close>

function bit_length :: "nat \<Rightarrow> nat" where
  "bit_length n = (if n = 0 then 0 else Suc (bit_length (n div 2)))"
  by pat_completeness auto
termination
  by (relation "measure id") auto

declare bit_length.simps [simp del]

text \<open>
  The binary exponent of a rational \<open>x\<close> other than zero: the integer \<open>e\<close> with
  \<open>2 powi e \<le> \<bar>x\<bar>\<close> and \<open>\<bar>x\<bar> < 2 powi (e + 1)\<close>.
\<close>

definition exponent_of :: "rat \<Rightarrow> int" where
  "exponent_of x =
     (if 1 \<le> \<bar>x\<bar> then int (bit_length (nat \<lfloor>\<bar>x\<bar>\<rfloor>)) - 1
      else - int (bit_length (nat (\<lceil>1 / \<bar>x\<bar>\<rceil> - 1))))"

text \<open>Rounding to the nearest integer, a tie to the even one.\<close>

definition round_half_even :: "rat \<Rightarrow> int" where
  "round_half_even y =
     (let f = \<lfloor>y\<rfloor>; r = y - of_int f
      in if r < 1 / 2 then f else if 1 / 2 < r then f + 1 else if even f then f else f + 1)"

text \<open>
  The double nearest to a rational, which is how every arithmetic operation of IEEE 754
  rounds its exact result. The doubles next to \<open>x\<close> are the multiples of
  \<open>2 powi (e - 52)\<close>, where \<open>e\<close> is the exponent of \<open>x\<close>, or \<open>-1022\<close> if that is greater (the
  subnormal range); a rounded magnitude of \<open>2 powi 1024\<close> or more is an infinity.
\<close>

definition to_double :: "rat \<Rightarrow> number" where
  "to_double x =
     (if x = 0 then Fin 0
      else
        let e = max (exponent_of x) (- 1022);
            q = 2 powi (e - 52);
            y = of_int (round_half_even (x / q)) * q
        in if 2 powi 1024 \<le> \<bar>y\<bar> then (if 0 < x then PosInf else NegInf) else Fin y)"

text \<open>The operators \<open>+\<close>, \<open>*\<close> and \<open>/\<close> on numbers.\<close>

fun dadd :: "number \<Rightarrow> number \<Rightarrow> number" where
  "dadd (Fin a) (Fin b) = to_double (a + b)"
| "dadd NaN _ = NaN"
| "dadd _ NaN = NaN"
| "dadd PosInf NegInf = NaN"
| "dadd NegInf PosInf = NaN"
| "dadd PosInf _ = PosInf"
| "dadd _ PosInf = PosInf"
| "dadd NegInf _ = NegInf"
| "dadd _ NegInf = NegInf"

fun dmul :: "number \<Rightarrow> number \<Rightarrow> number" where
  "dmul (Fin a) (Fin b) = to_double (a * b)"
| "dmul NaN _ = NaN"
| "dmul _ NaN = NaN"
| "dmul PosInf (Fin b) = (if b = 0 then NaN else if 0 < b then PosInf else NegInf)"
| "dmul NegInf (Fin b) = (if b = 0 then NaN else if 0 < b then NegInf else PosInf)"
| "dmul (Fin a) PosInf = (if a = 0 then NaN else if 0 < a then PosInf else NegInf)"
| "dmul (Fin a) NegInf = (if a = 0 then NaN else if 0 < a then NegInf else PosInf)"
| "dmul PosInf PosInf = PosInf"
| "dmul NegInf NegInf = PosInf"
| "dmul PosInf NegInf = NegInf"
| "dmul NegInf PosInf = NegInf"

fun ddiv :: "number \<Rightarrow> number \<Rightarrow> number" where
  "ddiv (Fin a) (Fin b) =
     (if b = 0 then (if a = 0 then NaN else if 0 < a then PosInf else NegInf)
      else to_double (a / b))"
| "ddiv NaN _ = NaN"
| "ddiv _ NaN = NaN"
| "ddiv (Fin a) _ = Fin 0"
| "ddiv PosInf (Fin b) = (if 0 \<le> b then PosInf else NegInf)"
| "ddiv NegInf (Fin b) = (if 0 \<le> b then NegInf else PosInf)"
| "ddiv _ _ = NaN"

text \<open>\<open>Math.round\<close> on a number: a double plus one half, rounded down, is a double again.\<close>

fun Math_round_double :: "number \<Rightarrow> number" where
  "Math_round_double (Fin x) = Fin (of_int \<lfloor>x + 1 / 2\<rfloor>)"
| "Math_round_double d = d"

subsection \<open>Errors and the environment\<close>

datatype ApiErrorType =
  NETWORK_ERROR | NOT_FOUND | SERVER_ERROR | VALIDATION_ERROR
| FORBIDDEN | RATE_LIMIT | TIMEOUT | UNAUTHORIZED

datatype ApiError =
  ApiError (errType: ApiErrorType) (message: string) (statusCode: nat)
    (details: "(string \<times> string) list")

text \<open>
  What the services read from outside: \<open>shouldSimulateError(service)\<close> and the
  \<open>errorType\<close> of the simulation's configuration in \<open>localStorage\<close> (both of module
  \<open>api-error\<close>), \<open>Date.now()\<close> in milliseconds, the platform's \<open>toISOString\<close> and
  \<open>getFullYear\<close> as functions of the milliseconds, \<open>Math.random()\<close>, and the
  double-precision product \<open>Math.round(baseValue * multiplier)\<close> of the grading service.
  One operation reads the clock once.
\<close>

record env =
  shouldSimulateError :: "string \<Rightarrow> bool"
  errorSimType :: "string \<Rightarrow> ApiErrorType option"
  now_ms :: nat
  toISOString :: "nat \<Rightarrow> string"
  getFullYear :: "nat \<Rightarrow> nat"
  random :: rat
  round_product :: "rat \<Rightarrow> rat \<Rightarrow> int"

text \<open>
  The error every mock throws first when the simulation is on:
  \<open>new ApiError(config.errorType || dflt, msg, config.errorType === NETWORK_ERROR ? 0 : 500)\<close>.
\<close>

definition simulated_error :: "env \<Rightarrow> string \<Rightarrow> ApiErrorType \<Rightarrow> string \<Rightarrow> ApiError" where
  "simulated_error e service dflt msg =
     ApiError (case errorSimType e service of None \<Rightarrow> dflt | Some t \<Rightarrow> t) msg
       (if errorSimType e service = Some NETWORK_ERROR then 0 else 500) []"

definition now_iso :: "env \<Rightarrow> string" where
  "now_iso e = toISOString e (now_ms e)"

subsection \<open>Entities\<close>

datatype booking_status =
  Created | Scheduled | Collected | Sanitised | Graded | Completed | Cancelled

fun booking_status_name :: "booking_status \<Rightarrow> string" where
  "booking_status_name Created = ''created''"
| "booking_status_name Scheduled = ''scheduled''"
| "booking_status_name Collected = ''collected''"
| "booking_status_name Sanitised = ''sanitised''"
| "booking_status_name Graded = ''graded''"
| "booking_status_name Completed = ''completed''"
| "booking_status_name Cancelled = ''cancelled''"

text \<open>\<open>WorkflowStatus\<close> of \<open>types/jobs.ts\<close>.\<close>

datatype WorkflowStatus =
  J_booked | J_routed | J_en_route | J_arrived | J_collected | J_warehouse
| J_sanitised | J_graded | J_finalised

record booking_asset =
  categoryId :: string
  categoryName :: string
  quantity :: int

text \<open>
  The fields of \<open>Booking\<close> that the services read or write. Field names carry a prefix,
  since the entities share names such as \<open>id\<close> and \<open>status\<close>.
\<close>

record booking =
  b_id :: string
  b_bookingNumber :: string
  b_status :: booking_status
  b_clientId :: string
  b_clientName :: string
  b_resellerId :: "string option"
  b_resellerName :: "string option"
  b_siteName :: string
  b_siteAddress :: string
  b_scheduledDate :: string
  b_assets :: "booking_asset list"
  b_estimatedCO2e :: rat
  b_estimatedBuyback :: rat
  b_charityPercent :: rat
  b_jobId :: "string option"
  b_driverId :: "string option"
  b_driverName :: "string option"
  b_scheduledBy :: "string option"
  b_scheduledAt :: "string option"
  b_sanitisedAt :: "string option"
  b_gradedAt :: "string option"
  b_completedAt :: "string option"

text \<open>\<open>Asset\<close>, \<open>Driver\<close> and \<open>Job\<close> of \<open>types/jobs.ts\<close>; the optional fields that no
  modelled operation touches are left out.\<close>

record asset =
  a_id :: string
  a_category :: string
  a_quantity :: int

datatype vehicle_type = Van | Truck | Car

record driver =
  d_id :: "string option"
  d_name :: string
  d_vehicleReg :: string
  d_vehicleType :: vehicle_type
  d_phone :: string

record certificate =
  c_type :: string
  c_generatedDate :: string
  c_downloadUrl :: string

record job =
  j_id :: string
  j_erpJobNumber :: string
  j_bookingId :: "string option"
  j_clientName :: string
  j_siteName :: string
  j_siteAddress :: string
  j_status :: WorkflowStatus
  j_scheduledDate :: string
  j_completedDate :: "string option"
  j_assets :: "asset list"
  j_driver :: "driver option"
  j_co2eSaved :: rat
  j_travelEmissions :: rat
  j_buybackValue :: rat
  j_charityPercent :: rat
  j_certificates :: "certificate list"

datatype commission_status = Pending | Approved | Paid

fun commission_status_name :: "commission_status \<Rightarrow> string" where
  "commission_status_name Pending = ''pending''"
| "commission_status_name Approved = ''approved''"
| "commission_status_name Paid = ''paid''"

record commission =
  cm_id :: string
  cm_resellerId :: string
  cm_resellerName :: string
  cm_clientId :: string
  cm_clientName :: string
  cm_jobId :: string
  cm_jobNumber :: string
  cm_bookingId :: string
  cm_bookingNumber :: string
  cm_commissionPercent :: int
  cm_jobValue :: rat
  cm_commissionAmount :: number
  cm_status :: commission_status
  cm_period :: string
  cm_createdAt :: string
  cm_paidDate :: "string option"

datatype invoice_status = Draft | Sent | InvPaid | Overdue | InvCancelled

fun invoice_status_name :: "invoice_status \<Rightarrow> string" where
  "invoice_status_name Draft = ''draft''"
| "invoice_status_name Sent = ''sent''"
| "invoice_status_name InvPaid = ''paid''"
| "invoice_status_name Overdue = ''overdue''"
| "invoice_status_name InvCancelled = ''cancelled''"

text \<open>
  An integer-valued JavaScript number that may fail to be finite: \<open>None\<close> stands for
  \<open>NaN\<close> and the two infinities, which a division by zero produces and which every later
  sum, product and rounding keeps non-finite.
\<close>

type_synonym jsint = "int option"

definition js_add :: "jsint \<Rightarrow> jsint \<Rightarrow> jsint" where
  "js_add x y = (case x of None \<Rightarrow> None | Some a \<Rightarrow> (case y of None \<Rightarrow> None | Some b \<Rightarrow> Some (a + b)))"

definition js_mul_int :: "jsint \<Rightarrow> int \<Rightarrow> jsint" where
  "js_mul_int x q = (case x of None \<Rightarrow> None | Some a \<Rightarrow> Some (a * q))"

record invoice_item =
  it_description :: string
  it_quantity :: int
  it_unitPrice :: jsint
  it_total :: jsint

record invoice =
  i_id :: string
  i_invoiceNumber :: string
  i_clientId :: string
  i_clientName :: string
  i_jobId :: string
  i_jobNumber :: string
  i_issueDate :: string
  i_dueDate :: string
  i_amount :: jsint
  i_status :: invoice_status
  i_items :: "invoice_item list"
  i_subtotal :: jsint
  i_tax :: jsint
  i_total :: jsint
  i_downloadUrl :: string

record sanitisation_record =
  s_id :: string
  s_bookingId :: string
  s_assetId :: string
  s_method :: string
  s_methodDetails :: "string option"
  s_timestamp :: string
  s_performedBy :: string
  s_certificateId :: string
  s_certificateUrl :: string
  s_verified :: bool
  s_notes :: "string option"

record grading_record =
  g_id :: string
  g_bookingId :: string
  g_assetId :: string
  g_assetCategory :: string
  g_grade :: string
  g_resaleValue :: int
  g_gradedAt :: string
  g_gradedBy :: string
  g_condition :: "string option"
  g_notes :: "string option"

text \<open>The module-level arrays.\<close>

record store =
  mockBookings :: "booking list"
  mockJobs :: "job list"
  mockCommissions :: "commission list"
  mockInvoices :: "invoice list"
  mockSanitisationRecords :: "sanitisation_record list"
  mockGradingRecords :: "grading_record list"

subsection \<open>Booking service: \<open>updateBookingStatusMock\<close>\<close>

text \<open>
  The table \<open>validTransitions\<close> has no entry for \<open>completed\<close> and \<open>cancelled\<close>; the lookup
  \<open>validTransitions[currentStatus] || []\<close> gives the empty list there.
\<close>

fun booking_validTransitions :: "booking_status \<Rightarrow> booking_status list" where
  "booking_validTransitions Created = [Scheduled]"
| "booking_validTransitions Scheduled = [Collected]"
| "booking_validTransitions Collected = [Sanitised]"
| "booking_validTransitions Sanitised = [Graded]"
| "booking_validTransitions Graded = [Completed]"
| "booking_validTransitions Completed = []"
| "booking_validTransitions Cancelled = []"

definition booking_not_found :: "string \<Rightarrow> ApiError" where
  "booking_not_found bookingId =
     ApiError NOT_FOUND (''Booking with ID '' @ quoted bookingId @ '' was not found.'') 404
       [(''bookingId'', bookingId)]"

definition booking_transition_error :: "string \<Rightarrow> booking_status \<Rightarrow> booking_status \<Rightarrow> ApiError" where
  "booking_transition_error bookingId currentStatus status =
     ApiError VALIDATION_ERROR
       (''Invalid status transition from '' @ quoted (booking_status_name currentStatus)
          @ '' to '' @ quoted (booking_status_name status)
          @ ''. Allowed next statuses: ''
          @ join '', '' (map booking_status_name (booking_validTransitions currentStatus)))
       400
       [(''bookingId'', bookingId),
        (''currentStatus'', booking_status_name currentStatus),
        (''requestedStatus'', booking_status_name status)]"

text \<open>The \<open>if\<close>/\<open>else if\<close> chain under \<open>// Set timestamps\<close>.\<close>

definition set_timestamps :: "env \<Rightarrow> booking_status \<Rightarrow> booking \<Rightarrow> booking" where
  "set_timestamps e status b =
     (if status = Sanitised \<and> \<not> truthy (b_sanitisedAt b) then b\<lparr>b_sanitisedAt := Some (now_iso e)\<rparr>
      else if status = Graded \<and> \<not> truthy (b_gradedAt b) then b\<lparr>b_gradedAt := Some (now_iso e)\<rparr>
      else if status = Completed \<and> \<not> truthy (b_completedAt b) then b\<lparr>b_completedAt := Some (now_iso e)\<rparr>
      else b)"

text \<open>The chain under \<open>// Sync job status when booking status changes\<close>, on the job found.\<close>

definition sync_job :: "env \<Rightarrow> booking_status \<Rightarrow> job \<Rightarrow> job" where
  "sync_job e status j =
     (if status = Sanitised \<and> j_status j = J_warehouse then j\<lparr>j_status := J_sanitised\<rparr>
      else if status = Graded \<and> j_status j = J_sanitised then j\<lparr>j_status := J_graded\<rparr>
      else if status = Completed \<and> j_status j = J_graded
        then j\<lparr>j_status := J_finalised, j_completedDate := Some (now_iso e)\<rparr>
      else j)"

definition has_id :: "string \<Rightarrow> booking \<Rightarrow> bool" where
  "has_id bookingId b = (b_id b = bookingId)"

definition job_has_id :: "string \<Rightarrow> job \<Rightarrow> bool" where
  "job_has_id jobId j = (j_id j = jobId)"

definition updateBookingStatusMock ::
  "env \<Rightarrow> store \<Rightarrow> string \<Rightarrow> booking_status \<Rightarrow> (ApiError + booking) \<times> store" where
  "updateBookingStatusMock e st bookingId status =
     (if shouldSimulateError e ''booking'' then
        (Inl (simulated_error e ''booking'' SERVER_ERROR
                ''Failed to update booking status. Please try again.''), st)
      else case List.find (has_id bookingId) (mockBookings st) of
        None \<Rightarrow> (Inl (booking_not_found bookingId), st)
      | Some booking \<Rightarrow>
          let currentStatus = b_status booking;
              allowedNextStatuses = booking_validTransitions currentStatus
          in if status \<noteq> currentStatus \<and> length allowedNextStatuses > 0
                \<and> status \<notin> set allowedNextStatuses
             then (Inl (booking_transition_error bookingId currentStatus status), st)
             else
               let booking' = set_timestamps e status (booking\<lparr>b_status := status\<rparr>);
                   jobs' = (if truthy (b_jobId booking')
                            then update_found (job_has_id (or_empty (b_jobId booking')))
                                   (sync_job e status) (mockJobs st)
                            else mockJobs st)
               in (Inr booking',
                   st\<lparr>mockBookings := update_found (has_id bookingId) (\<lambda>_. booking') (mockBookings st),
                      mockJobs := jobs'\<rparr>))"

subsection \<open>Booking service: \<open>assignDriverMock\<close>\<close>

definition assign_status_error :: "string \<Rightarrow> booking_status \<Rightarrow> ApiError" where
  "assign_status_error bookingId currentStatus =
     ApiError VALIDATION_ERROR
       (''Cannot assign driver to booking in '' @ quoted (booking_status_name currentStatus)
          @ '' status. Only '' @ quoted ''created'' @ '' bookings can be assigned.'')
       400
       [(''bookingId'', bookingId), (''currentStatus'', booking_status_name currentStatus)]"

text \<open>\<open>mockJobs.find(j => j.driver?.id === driverId)\<close> and the default driver.\<close>

definition driven_by :: "string \<Rightarrow> job \<Rightarrow> bool" where
  "driven_by driverId j = (case j_driver j of None \<Rightarrow> False | Some d \<Rightarrow> d_id d = Some driverId)"

definition default_driver :: "string \<Rightarrow> driver" where
  "default_driver driverId =
     \<lparr>d_id = Some driverId, d_name = ''Driver Name'', d_vehicleReg = ''XX00 XXX'',
      d_vehicleType = Van, d_phone = ''+44 7700 900000''\<rparr>"

definition lookup_driver :: "job list \<Rightarrow> string \<Rightarrow> driver" where
  "lookup_driver jobs driverId =
     (case List.find (driven_by driverId) jobs of
        None \<Rightarrow> default_driver driverId
      | Some j \<Rightarrow> (case j_driver j of None \<Rightarrow> default_driver driverId | Some d \<Rightarrow> d))"

definition new_job_id :: "env \<Rightarrow> string" where
  "new_job_id e = ''job-'' @ show_nat (now_ms e)"

definition new_erpJobNumber :: "env \<Rightarrow> string" where
  "new_erpJobNumber e =
     ''ERP-'' @ show_nat (getFullYear e (now_ms e)) @ ''-''
       @ padStart 5 CHR ''0'' (show_nat (nat \<lfloor>random e * 100000\<rfloor>))"

text \<open>\<open>booking.assets.map((asset, idx) => ...)\<close>.\<close>

definition job_asset :: "string \<Rightarrow> nat \<times> booking_asset \<Rightarrow> asset" where
  "job_asset jobId p =
     \<lparr>a_id = ''asset-'' @ jobId @ ''-'' @ show_nat (fst p),
      a_category = categoryId (snd p), a_quantity = quantity (snd p)\<rparr>"

definition new_job :: "env \<Rightarrow> booking \<Rightarrow> driver \<Rightarrow> job" where
  "new_job e booking d =
     \<lparr>j_id = new_job_id e,
      j_erpJobNumber = new_erpJobNumber e,
      j_bookingId = Some (b_id booking),
      j_clientName = b_clientName booking,
      j_siteName = b_siteName booking,
      j_siteAddress = b_siteAddress booking,
      j_status = J_routed,
      j_scheduledDate = b_scheduledDate booking,
      j_completedDate = None,
      j_assets = map (job_asset (new_job_id e)) (enumerate 0 (b_assets booking)),
      j_driver = Some \<lparr>d_id = None, d_name = d_name d, d_vehicleReg = d_vehicleReg d,
                        d_vehicleType = d_vehicleType d, d_phone = d_phone d\<rparr>,
      j_co2eSaved = b_estimatedCO2e booking,
      j_travelEmissions = 0,
      j_buybackValue = b_estimatedBuyback booking,
      j_charityPercent = b_charityPercent booking,
      j_certificates = []\<rparr>"

definition assignDriverMock ::
  "env \<Rightarrow> store \<Rightarrow> string \<Rightarrow> string \<Rightarrow> string \<Rightarrow> (ApiError + booking) \<times> store" where
  "assignDriverMock e st bookingId driverId scheduledBy =
     (if shouldSimulateError e ''booking'' then
        (Inl (simulated_error e ''booking'' SERVER_ERROR
                ''Failed to assign driver. Please try again.''), st)
      else case List.find (has_id bookingId) (mockBookings st) of
        None \<Rightarrow> (Inl (booking_not_found bookingId), st)
      | Some booking \<Rightarrow>
          if b_status booking \<noteq> Created
          then (Inl (assign_status_error bookingId (b_status booking)), st)
          else
            let d = lookup_driver (mockJobs st) driverId;
                booking1 = booking\<lparr>b_status := Scheduled,
                                    b_driverId := Some driverId,
                                    b_driverName := Some (d_name d),
                                    b_scheduledBy := Some scheduledBy,
                                    b_scheduledAt := Some (now_iso e)\<rparr>
            in if \<not> truthy (b_jobId booking1)
               then
                 let booking2 = booking1\<lparr>b_jobId := Some (new_job_id e)\<rparr>
                 in (Inr booking2,
                     st\<lparr>mockBookings := update_found (has_id bookingId) (\<lambda>_. booking2) (mockBookings st),
                        mockJobs := mockJobs st @ [new_job e booking1 d]\<rparr>)
               else
                 (Inr booking1,
                  st\<lparr>mockBookings := update_found (has_id bookingId) (\<lambda>_. booking1) (mockBookings st)\<rparr>))"

subsection \<open>Booking service: \<open>completeBookingMock\<close>\<close>

definition complete_status_error :: "string \<Rightarrow> booking_status \<Rightarrow> ApiError" where
  "complete_status_error bookingId currentStatus =
     ApiError VALIDATION_ERROR
       (''Cannot complete booking in '' @ quoted (booking_status_name currentStatus)
          @ '' status. Only '' @ quoted ''graded'' @ '' bookings can be completed.'')
       400
       [(''bookingId'', bookingId), (''currentStatus'', booking_status_name currentStatus)]"

text \<open>The block under \<open>// Update linked job status to 'finalised'\<close>, on the job found.\<close>

definition finalise_job :: "env \<Rightarrow> job \<Rightarrow> job" where
  "finalise_job e j =
     (if j_status j = J_graded
      then j\<lparr>j_status := J_finalised, j_completedDate := Some (now_iso e)\<rparr> else j)"

text \<open>\<open>booking.jobId ? `ERP-${booking.jobId}` : ''\<close>.\<close>

definition job_number_of :: "booking \<Rightarrow> string" where
  "job_number_of booking =
     (if truthy (b_jobId booking) then ''ERP-'' @ or_empty (b_jobId booking) else [])"

text \<open>
  \<open>Math.round(booking.estimatedBuyback * (commissionPercent / 100))\<close> with
  \<open>commissionPercent = 10\<close>. The quotient and the product are those of doubles: each is
  rounded to the nearest double before it is used.
\<close>

definition commissionPercent :: int where
  "commissionPercent = 10"

definition commission_amount :: "rat \<Rightarrow> number" where
  "commission_amount buyback =
     Math_round_double (dmul (Fin buyback) (ddiv (Fin (of_int commissionPercent)) (Fin 100)))"

definition new_commission :: "env \<Rightarrow> booking \<Rightarrow> commission" where
  "new_commission e booking =
     \<lparr>cm_id = ''comm-'' @ show_nat (now_ms e),
      cm_resellerId = or_empty (b_resellerId booking),
      cm_resellerName = or_empty (b_resellerName booking),
      cm_clientId = b_clientId booking,
      cm_clientName = b_clientName booking,
      cm_jobId = or_empty (b_jobId booking),
      cm_jobNumber = job_number_of booking,
      cm_bookingId = b_id booking,
      cm_bookingNumber = b_bookingNumber booking,
      cm_commissionPercent = commissionPercent,
      cm_jobValue = b_estimatedBuyback booking,
      cm_commissionAmount = commission_amount (b_estimatedBuyback booking),
      cm_status = Pending,
      cm_period = take 7 (now_iso e),
      cm_createdAt = now_iso e,
      cm_paidDate = None\<rparr>"

text \<open>
  \<open>booking.assets.reduce((sum, a) => sum + a.quantity, 0)\<close> and the unit price
  \<open>Math.round(booking.estimatedBuyback / total)\<close>: dividing by zero gives a non-finite
  number, which \<open>Math.round\<close> returns as it is.
\<close>

definition total_quantity :: "booking_asset list \<Rightarrow> int" where
  "total_quantity assets = foldl (\<lambda>sum a. sum + quantity a) 0 assets"

definition unit_price :: "rat \<Rightarrow> int \<Rightarrow> jsint" where
  "unit_price buyback totalQuantity =
     (if totalQuantity = 0 then None else Some (Math_round (buyback / of_int totalQuantity)))"

definition invoice_item_of :: "booking \<Rightarrow> booking_asset \<Rightarrow> invoice_item" where
  "invoice_item_of booking a =
     (let unitPrice = unit_price (b_estimatedBuyback booking) (total_quantity (b_assets booking))
      in \<lparr>it_description = categoryName a @ '' Collection & Processing (''
                               @ show_int (quantity a) @ '' units)'',
          it_quantity = quantity a,
          it_unitPrice = unitPrice,
          it_total = js_mul_int unitPrice (quantity a)\<rparr>)"

text \<open>\<open>Math.round(subtotal * 0.2)\<close>.\<close>

definition vat :: "jsint \<Rightarrow> jsint" where
  "vat subtotal = (case subtotal of None \<Rightarrow> None | Some s \<Rightarrow> Some (Math_round (of_int s * (2 / 10))))"

text \<open>\<open>toISOString().split('T')[0]\<close> and the thirty days in milliseconds.\<close>

definition date_part :: "string \<Rightarrow> string" where
  "date_part s = takeWhile (\<lambda>c. c \<noteq> CHR ''T'') s"

definition thirty_days_ms :: nat where
  "thirty_days_ms = 30 * 24 * 60 * 60 * 1000"

definition new_invoice :: "env \<Rightarrow> invoice list \<Rightarrow> booking \<Rightarrow> invoice" where
  "new_invoice e invoices booking =
     (let items = map (invoice_item_of booking) (b_assets booking);
          subtotal = foldl (\<lambda>sum item. js_add sum (it_total item)) (Some 0) items;
          tax = vat subtotal;
          totalDue = js_add subtotal tax
      in \<lparr>i_id = ''inv-'' @ show_nat (now_ms e),
          i_invoiceNumber = ''INV-'' @ show_nat (getFullYear e (now_ms e)) @ ''-''
                              @ padStart 5 CHR ''0'' (show_nat (length invoices + 1)),
          i_clientId = b_clientId booking,
          i_clientName = b_clientName booking,
          i_jobId = or_empty (b_jobId booking),
          i_jobNumber = job_number_of booking,
          i_issueDate = date_part (now_iso e),
          i_dueDate = date_part (toISOString e (now_ms e + thirty_days_ms)),
          i_amount = subtotal,
          i_status = Draft,
          i_items = items,
          i_subtotal = subtotal,
          i_tax = tax,
          i_total = totalDue,
          i_downloadUrl = ''#''\<rparr>)"

definition completeBookingMock ::
  "env \<Rightarrow> store \<Rightarrow> string \<Rightarrow> string \<Rightarrow> (ApiError + booking) \<times> store" where
  "completeBookingMock e st bookingId completedBy =
     (if shouldSimulateError e ''booking'' then
        (Inl (simulated_error e ''booking'' SERVER_ERROR
                ''Failed to complete booking. Please try again.''), st)
      else case List.find (has_id bookingId) (mockBookings st) of
        None \<Rightarrow> (Inl (booking_not_found bookingId), st)
      | Some booking \<Rightarrow>
          if b_status booking \<noteq> Graded
          then (Inl (complete_status_error bookingId (b_status booking)), st)
          else
            let booking' = booking\<lparr>b_status := Completed, b_completedAt := Some (now_iso e)\<rparr>;
                jobs' = (if truthy (b_jobId booking')
                         then update_found (job_has_id (or_empty (b_jobId booking')))
                                (finalise_job e) (mockJobs st)
                         else mockJobs st);
                commissions' = (if truthy (b_resellerId booking') \<and> truthy (b_resellerName booking')
                                then mockCommissions st @ [new_commission e booking']
                                else mockCommissions st);
                invoices' = mockInvoices st @ [new_invoice e (mockInvoices st) booking']
            in (Inr booking',
                st\<lparr>mockBookings := update_found (has_id bookingId) (\<lambda>_. booking') (mockBookings st),
                   mockJobs := jobs',
                   mockCommissions := commissions',
                   mockInvoices := invoices'\<rparr>))"

subsection \<open>Invoice service: \<open>updateInvoiceStatusMock\<close>\<close>

fun invoice_validTransitions :: "invoice_status \<Rightarrow> invoice_status list" where
  "invoice_validTransitions Draft = [Sent, InvCancelled]"
| "invoice_validTransitions Sent = [InvPaid, Overdue, InvCancelled]"
| "invoice_validTransitions InvPaid = [InvCancelled]"
| "invoice_validTransitions Overdue = [InvPaid, InvCancelled]"
| "invoice_validTransitions InvCancelled = []"

definition invoice_has_id :: "string \<Rightarrow> invoice \<Rightarrow> bool" where
  "invoice_has_id invoiceId i = (i_id i = invoiceId)"

definition invoice_not_found :: "string \<Rightarrow> ApiError" where
  "invoice_not_found invoiceId =
     ApiError NOT_FOUND (''Invoice with ID '' @ quoted invoiceId @ '' was not found.'') 404
       [(''invoiceId'', invoiceId)]"

definition invoice_transition_error :: "string \<Rightarrow> invoice_status \<Rightarrow> invoice_status \<Rightarrow> ApiError" where
  "invoice_transition_error invoiceId currentStatus status =
     ApiError VALIDATION_ERROR
       (''Invalid status transition from '' @ quoted (invoice_status_name currentStatus)
          @ '' to '' @ quoted (invoice_status_name status)
          @ ''. Allowed next statuses: ''
          @ join '', '' (map invoice_status_name (invoice_validTransitions currentStatus))
          @ '', or cancelled'')
       400
       [(''invoiceId'', invoiceId),
        (''currentStatus'', invoice_status_name currentStatus),
        (''requestedStatus'', invoice_status_name status)]"

definition updateInvoiceStatusMock ::
  "env \<Rightarrow> store \<Rightarrow> string \<Rightarrow> invoice_status \<Rightarrow> (ApiError + invoice) \<times> store" where
  "updateInvoiceStatusMock e st invoiceId status =
     (if shouldSimulateError e ''invoices'' then
        (Inl (simulated_error e ''invoices'' SERVER_ERROR
                ''Failed to update invoice status. Please try again.''), st)
      else case List.find (invoice_has_id invoiceId) (mockInvoices st) of
        None \<Rightarrow> (Inl (invoice_not_found invoiceId), st)
      | Some invoice \<Rightarrow>
          let currentStatus = i_status invoice;
              allowedNextStatuses = invoice_validTransitions currentStatus
          in if status = InvCancelled
             then
               (let invoice' = invoice\<lparr>i_status := InvCancelled\<rparr>
                in (Inr invoice',
                    st\<lparr>mockInvoices :=
                         update_found (invoice_has_id invoiceId) (\<lambda>_. invoice') (mockInvoices st)\<rparr>))
             else if status \<noteq> currentStatus \<and> length allowedNextStatuses > 0
                     \<and> status \<notin> set allowedNextStatuses
             then (Inl (invoice_transition_error invoiceId currentStatus status), st)
             else
               (let invoice' = invoice\<lparr>i_status := status\<rparr>
                in (Inr invoice',
                    st\<lparr>mockInvoices :=
                         update_found (invoice_has_id invoiceId) (\<lambda>_. invoice') (mockInvoices st)\<rparr>)))"

subsection \<open>Plain objects\<close>

text \<open>
  The values that a property of the object \<open>byPeriod\<close> takes: \<open>undefined\<close>, a number, a
  string, or a function or object inherited from \<open>Object.prototype\<close>. The characters of
  a string and the identity of a function are not modelled.
\<close>

datatype jsvalue = Undefined | Num number | Str | Obj

text \<open>
  An object created by \<open>{}\<close> has its own properties, here an association list with one
  entry for a key, and inherits the members of \<open>Object.prototype\<close>. The own properties
  are listed in the order of their creation; that JavaScript enumerates keys that look
  like array indices first is not modelled.
\<close>

definition object_prototype_names :: "string list" where
  "object_prototype_names =
     [''constructor'', ''__defineGetter__'', ''__defineSetter__'', ''hasOwnProperty'',
      ''__lookupGetter__'', ''__lookupSetter__'', ''isPrototypeOf'', ''propertyIsEnumerable'',
      ''toString'', ''valueOf'', ''__proto__'', ''toLocaleString'']"

text \<open>\<open>obj[k]\<close>: the own property, else the inherited member, else \<open>undefined\<close>.\<close>

definition get_property :: "(string \<times> jsvalue) list \<Rightarrow> string \<Rightarrow> jsvalue" where
  "get_property obj k =
     (case map_of obj k of
        Some v \<Rightarrow> v
      | None \<Rightarrow> if k \<in> set object_prototype_names then Obj else Undefined)"

text \<open>
  \<open>v || 0\<close>: \<open>undefined\<close>, \<open>NaN\<close> and zero are falsy. A function or an object is truthy, and
  so is a string that is not empty; the strings that arise here end in the digits of a
  number.
\<close>

fun or_zero :: "jsvalue \<Rightarrow> jsvalue" where
  "or_zero Undefined = Num (Fin 0)"
| "or_zero (Num NaN) = Num (Fin 0)"
| "or_zero v = v"

text \<open>
  \<open>v + n\<close> for a number \<open>n\<close>: the sum of two numbers; \<open>NaN\<close> for \<open>undefined\<close>; and for a
  string, a function or an object the concatenation of two strings.
\<close>

fun js_plus :: "jsvalue \<Rightarrow> number \<Rightarrow> jsvalue" where
  "js_plus (Num a) n = Num (dadd a n)"
| "js_plus Undefined n = Num NaN"
| "js_plus v n = Str"

text \<open>
  \<open>obj[k] = v\<close> overwrites the own property \<open>k\<close> or creates it, except for \<open>__proto__\<close>:
  the inherited setter of that name ignores a number and a string, the only values
  assigned here.
\<close>

fun assign_key :: "string \<Rightarrow> 'v \<Rightarrow> (string \<times> 'v) list \<Rightarrow> (string \<times> 'v) list" where
  "assign_key k v [] = [(k, v)]"
| "assign_key k v ((k', v') # kvs) = (if k' = k then (k, v) # kvs else (k', v') # assign_key k v kvs)"

definition set_property :: "string \<Rightarrow> jsvalue \<Rightarrow> (string \<times> jsvalue) list \<Rightarrow> (string \<times> jsvalue) list" where
  "set_property k v obj = (if k = ''__proto__'' then obj else assign_key k v obj)"

subsection \<open>Commission service\<close>

datatype user_role = Admin | Client | Reseller | DriverRole

record user =
  u_id :: string
  u_role :: user_role
  u_tenantId :: string

record commission_filter =
  f_status :: "string option"
  f_period :: "string option"

text \<open>\<open>getCommissionsMock(user, filter)\<close>; a missing or \<open>null\<close> argument is \<open>None\<close>.\<close>

definition filter_by_role :: "user option \<Rightarrow> commission list \<Rightarrow> commission list" where
  "filter_by_role u cs =
     (case u of
        None \<Rightarrow> cs
      | Some usr \<Rightarrow>
          if u_role usr = Admin then cs
          else if u_role usr = Reseller then filter (\<lambda>c. cm_resellerId c = u_tenantId usr) cs
          else [])"

definition apply_filter :: "commission_filter option \<Rightarrow> commission list \<Rightarrow> commission list" where
  "apply_filter fl cs =
     (case fl of
        None \<Rightarrow> cs
      | Some f \<Rightarrow>
          let cs1 = (if truthy (f_status f)
                     then filter (\<lambda>c. commission_status_name (cm_status c) = or_empty (f_status f)) cs
                     else cs)
          in if truthy (f_period f)
             then filter (\<lambda>c. cm_period c = or_empty (f_period f)) cs1
             else cs1)"

definition getCommissionsMock ::
  "env \<Rightarrow> store \<Rightarrow> user option \<Rightarrow> commission_filter option \<Rightarrow> ApiError + commission list" where
  "getCommissionsMock e st u fl =
     (if shouldSimulateError e ''commission'' then
        Inl (simulated_error e ''commission'' NETWORK_ERROR
               ''Failed to fetch commission records. Please try again.'')
      else Inr (apply_filter fl (filter_by_role u (mockCommissions st))))"

record commission_summary =
  totalPending :: number
  totalApproved :: number
  totalPaid :: number
  totalAmount :: number
  byPeriod :: "(string \<times> jsvalue) list"

text \<open>\<open>cs.reduce((sum, c) => sum + c.commissionAmount, 0)\<close>.\<close>

definition sum_amounts :: "commission list \<Rightarrow> number" where
  "sum_amounts cs = foldl (\<lambda>sum c. dadd sum (cm_commissionAmount c)) (Fin 0) cs"

text \<open>
  \<open>summary.byPeriod[c.period] = (summary.byPeriod[c.period] || 0) + c.commissionAmount\<close> for
  every commission in turn, starting from \<open>{}\<close>.
\<close>

definition group_by_period :: "commission list \<Rightarrow> (string \<times> jsvalue) list" where
  "group_by_period cs =
     foldl (\<lambda>bp c. set_property (cm_period c)
                     (js_plus (or_zero (get_property bp (cm_period c))) (cm_commissionAmount c)) bp)
       [] cs"

definition getCommissionSummaryMock ::
  "env \<Rightarrow> store \<Rightarrow> user option \<Rightarrow> ApiError + commission_summary" where
  "getCommissionSummaryMock e st u =
     (case getCommissionsMock e st u None of
        Inl err \<Rightarrow> Inl err
      | Inr commissions \<Rightarrow>
          Inr \<lparr>totalPending = sum_amounts (filter (\<lambda>c. cm_status c = Pending) commissions),
               totalApproved = sum_amounts (filter (\<lambda>c. cm_status c = Approved) commissions),
               totalPaid = sum_amounts (filter (\<lambda>c. cm_status c = Paid) commissions),
               totalAmount = sum_amounts commissions,
               byPeriod = group_by_period commissions\<rparr>)"

fun commission_validTransitions :: "commission_status \<Rightarrow> commission_status list" where
  "commission_validTransitions Pending = [Approved]"
| "commission_validTransitions Approved = [Paid]"
| "commission_validTransitions Paid = []"

definition commission_has_id :: "string \<Rightarrow> commission \<Rightarrow> bool" where
  "commission_has_id commissionId c = (cm_id c = commissionId)"

definition commission_not_found :: "string \<Rightarrow> ApiError" where
  "commission_not_found commissionId =
     ApiError NOT_FOUND (''Commission with ID '' @ quoted commissionId @ '' was not found.'') 404 []"

definition commission_transition_error :: "commission_status \<Rightarrow> commission_status \<Rightarrow> ApiError" where
  "commission_transition_error currentStatus status =
     ApiError VALIDATION_ERROR
       (''Invalid status transition from '' @ quoted (commission_status_name currentStatus)
          @ '' to '' @ quoted (commission_status_name status)
          @ ''. Allowed next status: ''
          @ join '', '' (map commission_status_name (commission_validTransitions currentStatus)))
       400 []"

definition updateCommissionStatusMock ::
  "env \<Rightarrow> store \<Rightarrow> string \<Rightarrow> commission_status \<Rightarrow> (ApiError + commission) \<times> store" where
  "updateCommissionStatusMock e st commissionId status =
     (if shouldSimulateError e ''commission'' then
        (Inl (simulated_error e ''commission'' SERVER_ERROR
                ''Failed to update commission status. Please try again.''), st)
      else case List.find (commission_has_id commissionId) (mockCommissions st) of
        None \<Rightarrow> (Inl (commission_not_found commissionId), st)
      | Some commission \<Rightarrow>
          let currentStatus = cm_status commission;
              allowedNextStatuses = commission_validTransitions currentStatus
          in if status \<noteq> currentStatus \<and> length allowedNextStatuses > 0
                \<and> status \<notin> set allowedNextStatuses
             then (Inl (commission_transition_error currentStatus status), st)
             else
               let commission1 = commission\<lparr>cm_status := status\<rparr>;
                   commission' = (if status = Paid \<and> \<not> truthy (cm_paidDate commission1)
                                  then commission1\<lparr>cm_paidDate := Some (now_iso e)\<rparr>
                                  else commission1)
               in (Inr commission',
                   st\<lparr>mockCommissions :=
                        update_found (commission_has_id commissionId) (\<lambda>_. commission')
                          (mockCommissions st)\<rparr>))"

subsection \<open>Sanitisation service: \<open>createSanitisationRecordMock\<close>\<close>

definition new_sanitisation_record ::
  "env \<Rightarrow> sanitisation_record list \<Rightarrow> string \<Rightarrow> string \<Rightarrow> string \<Rightarrow> string
     \<Rightarrow> string option \<Rightarrow> string option \<Rightarrow> sanitisation_record" where
  "new_sanitisation_record e records bookingId assetId method performedBy methodDetails notes =
     \<lparr>s_id = ''sanit-'' @ show_nat (now_ms e),
      s_bookingId = bookingId,
      s_assetId = assetId,
      s_method = method,
      s_methodDetails = methodDetails,
      s_timestamp = now_iso e,
      s_performedBy = performedBy,
      s_certificateId = ''CERT-SANIT-'' @ show_nat (getFullYear e (now_ms e)) @ ''-''
                          @ padStart 3 CHR ''0'' (show_nat (length records + 1)),
      s_certificateUrl = ''#'',
      s_verified = False,
      s_notes = notes\<rparr>"

text \<open>
  \<open>booking.assets.every(asset => ids.has(asset.categoryId))\<close>, where \<open>ids\<close> is the
  \<open>Set\<close> of the \<open>assetId\<close>s of the booking's records.
\<close>

definition allAssetsSanitised :: "sanitisation_record list \<Rightarrow> string \<Rightarrow> booking \<Rightarrow> bool" where
  "allAssetsSanitised records bookingId booking =
     (let bookingRecords = filter (\<lambda>r. s_bookingId r = bookingId) records;
          sanitisedAssetIds = set (map s_assetId bookingRecords)
      in list_all (\<lambda>a. categoryId a \<in> sanitisedAssetIds) (b_assets booking))"

definition job_to_sanitised :: "job \<Rightarrow> job" where
  "job_to_sanitised j = (if j_status j = J_warehouse then j\<lparr>j_status := J_sanitised\<rparr> else j)"

definition createSanitisationRecordMock ::
  "env \<Rightarrow> store \<Rightarrow> string \<Rightarrow> string \<Rightarrow> string \<Rightarrow> string \<Rightarrow> string option \<Rightarrow> string option
     \<Rightarrow> (ApiError + sanitisation_record) \<times> store" where
  "createSanitisationRecordMock e st bookingId assetId method performedBy methodDetails notes =
     (if shouldSimulateError e ''sanitisation'' then
        (Inl (simulated_error e ''sanitisation'' SERVER_ERROR
                ''Failed to create sanitisation record. Please try again.''), st)
      else
        let newRecord = new_sanitisation_record e (mockSanitisationRecords st)
                          bookingId assetId method performedBy methodDetails notes;
            st1 = st\<lparr>mockSanitisationRecords := mockSanitisationRecords st @ [newRecord]\<rparr>
        in case List.find (has_id bookingId) (mockBookings st1) of
             None \<Rightarrow> (Inr newRecord, st1)
           | Some booking \<Rightarrow>
               if allAssetsSanitised (mockSanitisationRecords st1) bookingId booking
                  \<and> b_status booking = Collected
               then
                 let booking' = booking\<lparr>b_status := Sanitised, b_sanitisedAt := Some (now_iso e)\<rparr>;
                     jobs' = (if truthy (b_jobId booking')
                              then update_found (job_has_id (or_empty (b_jobId booking')))
                                     job_to_sanitised (mockJobs st1)
                              else mockJobs st1)
                 in (Inr newRecord,
                     st1\<lparr>mockBookings :=
                           update_found (has_id bookingId) (\<lambda>_. booking') (mockBookings st1),
                         mockJobs := jobs'\<rparr>)
               else (Inr newRecord, st1))"

subsection \<open>Grading service: \<open>createGradingRecordMock\<close>\<close>

text \<open>The tables \<open>gradeMultipliers\<close> and \<open>baseResaleValues\<close>, read with \<open>|| 0\<close>.\<close>

definition gradeMultipliers :: "(string \<times> rat) list" where
  "gradeMultipliers = [(''A'', 1), (''B'', 7 / 10), (''C'', 4 / 10), (''D'', 2 / 10), (''Recycled'', 0)]"

definition baseResaleValues :: "(string \<times> rat) list" where
  "baseResaleValues =
     [(''laptop'', 85), (''desktop'', 45), (''monitor'', 25), (''server'', 250),
      (''phone'', 40), (''tablet'', 55), (''printer'', 15), (''network'', 35)]"

definition table_or_zero :: "(string \<times> rat) list \<Rightarrow> string \<Rightarrow> rat" where
  "table_or_zero t k = (case map_of t k of None \<Rightarrow> 0 | Some v \<Rightarrow> v)"

definition new_grading_record ::
  "env \<Rightarrow> string \<Rightarrow> string \<Rightarrow> string \<Rightarrow> string \<Rightarrow> string
     \<Rightarrow> string option \<Rightarrow> string option \<Rightarrow> grading_record" where
  "new_grading_record e bookingId assetId assetCategory grade gradedBy condition notes =
     \<lparr>g_id = ''grade-'' @ show_nat (now_ms e),
      g_bookingId = bookingId,
      g_assetId = assetId,
      g_assetCategory = assetCategory,
      g_grade = grade,
      g_resaleValue = round_product e (table_or_zero baseResaleValues assetCategory)
                        (table_or_zero gradeMultipliers grade),
      g_gradedAt = now_iso e,
      g_gradedBy = gradedBy,
      g_condition = condition,
      g_notes = notes\<rparr>"

definition allAssetsGraded :: "grading_record list \<Rightarrow> string \<Rightarrow> booking \<Rightarrow> bool" where
  "allAssetsGraded records bookingId booking =
     (let bookingRecords = filter (\<lambda>r. g_bookingId r = bookingId) records;
          gradedAssetIds = set (map g_assetId bookingRecords)
      in list_all (\<lambda>a. categoryId a \<in> gradedAssetIds) (b_assets booking))"

definition job_to_graded :: "job \<Rightarrow> job" where
  "job_to_graded j = (if j_status j = J_sanitised then j\<lparr>j_status := J_graded\<rparr> else j)"

definition createGradingRecordMock ::
  "env \<Rightarrow> store \<Rightarrow> string \<Rightarrow> string \<Rightarrow> string \<Rightarrow> string \<Rightarrow> string \<Rightarrow> string option
     \<Rightarrow> string option \<Rightarrow> (ApiError + grading_record) \<times> store" where
  "createGradingRecordMock e st bookingId assetId assetCategory grade gradedBy condition notes =
     (if shouldSimulateError e ''grading'' then
        (Inl (simulated_error e ''grading'' SERVER_ERROR
                ''Failed to create grading record. Please try again.''), st)
      else
        let newRecord = new_grading_record e bookingId assetId assetCategory grade gradedBy
                          condition notes;
            st1 = st\<lparr>mockGradingRecords := mockGradingRecords st @ [newRecord]\<rparr>
        in case List.find (has_id bookingId) (mockBookings st1) of
             None \<Rightarrow> (Inr newRecord, st1)
           | Some booking \<Rightarrow>
               if allAssetsGraded (mockGradingRecords st1) bookingId booking
                  \<and> b_status booking = Sanitised
               then
                 let booking' = booking\<lparr>b_status := Graded, b_gradedAt := Some (now_iso e)\<rparr>;
                     jobs' = (if truthy (b_jobId booking')
                              then update_found (job_has_id (or_empty (b_jobId booking')))
                                     job_to_graded (mockJobs st1)
                              else mockJobs st1)
                 in (Inr newRecord,
                     st1\<lparr>mockBookings :=
                           update_found (has_id bookingId) (\<lambda>_. booking') (mockBookings st1),
                         mockJobs := jobs'\<rparr>)
               else (Inr newRecord, st1))"

subsection \<open>Job helpers: \<open>canDriverEditJob\<close>\<close>

text \<open>
  \<open>utils/job-helpers.ts\<close> decides whether the driver's view lets a driver edit a job. It
  compares the name of the status after \<open>normalizeStatusForCheck\<close>.
\<close>

fun job_status_name :: "WorkflowStatus \<Rightarrow> string" where
  "job_status_name J_booked = ''booked''"
| "job_status_name J_routed = ''routed''"
| "job_status_name J_en_route = ''en-route''"
| "job_status_name J_arrived = ''arrived''"
| "job_status_name J_collected = ''collected''"
| "job_status_name J_warehouse = ''warehouse''"
| "job_status_name J_sanitised = ''sanitised''"
| "job_status_name J_graded = ''graded''"
| "job_status_name J_finalised = ''finalised''"

definition normalizeStatusForCheck :: "string \<Rightarrow> string" where
  "normalizeStatusForCheck status =
     (if status = ''en-route'' \<or> status = ''en_route'' then ''en-route'' else status)"

definition canDriverEditJob :: "job option \<Rightarrow> bool" where
  "canDriverEditJob job =
     (case job of
        None \<Rightarrow> False
      | Some j \<Rightarrow>
          normalizeStatusForCheck (job_status_name (j_status j))
            \<in> set [''routed'', ''en-route'', ''arrived'', ''collected''])"

subsection \<open>The specification's tables\<close>

text \<open>
  The Booking-to-Job cascade table of the specification: a booking that moves to
  \<open>sanitised\<close>, \<open>graded\<close> or \<open>completed\<close> takes a job that is in \<open>warehouse\<close>, \<open>sanitised\<close>
  or \<open>graded\<close> to \<open>sanitised\<close>, \<open>graded\<close> or \<open>finalised\<close>; any other job stays as it is.
\<close>

fun cascade_table :: "booking_status \<Rightarrow> WorkflowStatus \<Rightarrow> WorkflowStatus" where
  "cascade_table Sanitised J_warehouse = J_sanitised"
| "cascade_table Graded J_sanitised = J_graded"
| "cascade_table Completed J_graded = J_finalised"
| "cascade_table _ s = s"

text \<open>
  The completeness predicate of the specification: the set of identifiers covered by
  all records of the booking is a superset of the categories of its line items.
\<close>

definition sanitised_ids :: "sanitisation_record list \<Rightarrow> string \<Rightarrow> string set" where
  "sanitised_ids records bookingId = s_assetId ` {r \<in> set records. s_bookingId r = bookingId}"

definition graded_ids :: "grading_record list \<Rightarrow> string \<Rightarrow> string set" where
  "graded_ids records bookingId = g_assetId ` {r \<in> set records. g_bookingId r = bookingId}"

definition covers :: "string set \<Rightarrow> booking \<Rightarrow> bool" where
  "covers ids booking = (categoryId ` set (b_assets booking) \<subseteq> ids)"

text \<open>
  Modelled from the spec: the job service (\<open>jobs.service.ts\<close>) and its transition check
  are not among the sources. The specification lists the driver's transitions
  \<open>routed \<rightarrow> en-route \<rightarrow> arrived \<rightarrow> collected \<rightarrow> warehouse\<close>, lets a job leave \<open>booked\<close>
  to \<open>routed\<close> or, as a shortcut, straight to \<open>en-route\<close>, and gives the driver no
  transition from \<open>warehouse\<close> on.
\<close>

fun job_validTransitions :: "WorkflowStatus \<Rightarrow> WorkflowStatus list" where
  "job_validTransitions J_booked = [J_routed, J_en_route]"
| "job_validTransitions J_routed = [J_en_route]"
| "job_validTransitions J_en_route = [J_arrived]"
| "job_validTransitions J_arrived = [J_collected]"
| "job_validTransitions J_collected = [J_warehouse]"
| "job_validTransitions _ = []"

text \<open>
  Modelled from the spec: the legal-transition check of the job service, which accepts a
  transition when the table lists the target for the current status.
\<close>

definition isLegalJobTransition :: "WorkflowStatus \<Rightarrow> WorkflowStatus \<Rightarrow> bool" where
  "isLegalJobTransition current target = (target \<in> set (job_validTransitions current))"

subsection \<open>Whole-number amounts\<close>

text \<open>
  For the statements about sums: a number is whole if it is a finite double without a
  fractional part, and \<open>whole_amount\<close> reads the amount of a commission as an integer.
\<close>

definition whole_part :: "number \<Rightarrow> int" where
  "whole_part d = (case d of Fin x \<Rightarrow> \<lfloor>x\<rfloor> | _ \<Rightarrow> 0)"

definition whole_number :: "number \<Rightarrow> bool" where
  "whole_number d = (d = Fin (of_int (whole_part d)))"

definition whole_amount :: "commission \<Rightarrow> int" where
  "whole_amount c = whole_part (cm_commissionAmount c)"

abbreviation whole_value :: "int \<Rightarrow> jsvalue" where
  "whole_value v \<equiv> Num (Fin (of_int v))"

subsection \<open>Example data\<close>

text \<open>
  An environment without error simulation whose clock reads noon of 1 January 2025, and
  a booking of two laptops and three monitors with an estimated buyback of 500.
\<close>

definition env0 :: env where
  "env0 =
     \<lparr>shouldSimulateError = (\<lambda>_. False),
      errorSimType = (\<lambda>_. None),
      now_ms = 1735732800000,
      toISOString = (\<lambda>t. if t = 1735732800000 then ''2025-01-01T12:00:00.000Z''
                          else ''2025-01-31T12:00:00.000Z''),
      getFullYear = (\<lambda>_. 2025),
      random = 1 / 4,
      round_product = (\<lambda>x y. Math_round (x * y))\<rparr>"

definition ex_booking :: booking where
  "ex_booking =
     \<lparr>b_id = ''booking-1'', b_bookingNumber = ''BK-1'', b_status = Created,
      b_clientId = ''client-1'', b_clientName = ''Client One'',
      b_resellerId = Some ''r1'', b_resellerName = Some ''Reseller One'',
      b_siteName = ''HQ'', b_siteAddress = ''1 High Street'', b_scheduledDate = ''2025-01-10'',
      b_assets = [\<lparr>categoryId = ''laptop'', categoryName = ''Laptop'', quantity = 2\<rparr>,
                  \<lparr>categoryId = ''monitor'', categoryName = ''Monitor'', quantity = 3\<rparr>],
      b_estimatedCO2e = 1200, b_estimatedBuyback = 500, b_charityPercent = 0,
      b_jobId = None, b_driverId = None, b_driverName = None, b_scheduledBy = None,
      b_scheduledAt = None, b_sanitisedAt = None, b_gradedAt = None, b_completedAt = None\<rparr>"

definition ex_store :: "booking \<Rightarrow> store" where
  "ex_store b =
     \<lparr>mockBookings = [b], mockJobs = [], mockCommissions = [], mockInvoices = [],
      mockSanitisationRecords = [], mockGradingRecords = []\<rparr>"

text \<open>A draft invoice, a paid commission, and a store that holds only billing entities.\<close>

definition ex_invoice :: invoice where
  "ex_invoice =
     \<lparr>i_id = ''inv-1'', i_invoiceNumber = ''INV-2025-00001'', i_clientId = ''client-1'',
      i_clientName = ''Client One'', i_jobId = ''job-1'', i_jobNumber = ''ERP-job-1'',
      i_issueDate = ''2025-01-01'', i_dueDate = ''2025-01-31'', i_amount = Some 500,
      i_status = Draft, i_items = [], i_subtotal = Some 500, i_tax = Some 100,
      i_total = Some 600, i_downloadUrl = ''#''\<rparr>"

definition ex_commission :: commission where
  "ex_commission =
     \<lparr>cm_id = ''comm-1'', cm_resellerId = ''r1'', cm_resellerName = ''Reseller One'',
      cm_clientId = ''client-1'', cm_clientName = ''Client One'', cm_jobId = ''job-1'',
      cm_jobNumber = ''ERP-job-1'', cm_bookingId = ''booking-1'', cm_bookingNumber = ''BK-1'',
      cm_commissionPercent = 10, cm_jobValue = 1000, cm_commissionAmount = Fin 100,
      cm_status = Paid, cm_period = ''2024-12'', cm_createdAt = ''2024-12-01T09:00:00.000Z'',
      cm_paidDate = Some ''2024-12-20T09:00:00.000Z''\<rparr>"

definition billing_store :: "commission list \<Rightarrow> invoice list \<Rightarrow> store" where
  "billing_store cs ivs =
     \<lparr>mockBookings = [], mockJobs = [], mockCommissions = cs, mockInvoices = ivs,
      mockSanitisationRecords = [], mockGradingRecords = []\<rparr>"

text \<open>
  A job in \<open>warehouse\<close> linked to the booking, the booking once collected, one
  sanitisation and one grading record for its laptops, and a store of one booking and
  one job.
\<close>

definition ex_job :: job where
  "ex_job =
     \<lparr>j_id = ''job-1'', j_erpJobNumber = ''ERP-2025-00001'', j_bookingId = Some ''booking-1'',
      j_clientName = ''Client One'', j_siteName = ''HQ'', j_siteAddress = ''1 High Street'',
      j_status = J_warehouse, j_scheduledDate = ''2025-01-10'', j_completedDate = None,
      j_assets = [], j_driver = None, j_co2eSaved = 1200, j_travelEmissions = 0,
      j_buybackValue = 500, j_charityPercent = 0, j_certificates = []\<rparr>"

definition ex_sanitisation_record :: sanitisation_record where
  "ex_sanitisation_record =
     \<lparr>s_id = ''sanit-001'', s_bookingId = ''booking-1'', s_assetId = ''laptop'',
      s_method = ''blancco'', s_methodDetails = None, s_timestamp = ''2024-12-30T15:00:00Z'',
      s_performedBy = ''user-1'', s_certificateId = ''CERT-SANIT-2024-001'',
      s_certificateUrl = ''#'', s_verified = True, s_notes = None\<rparr>"

definition ex_grading_record :: grading_record where
  "ex_grading_record =
     \<lparr>g_id = ''grade-001'', g_bookingId = ''booking-1'', g_assetId = ''laptop'',
      g_assetCategory = ''laptop'', g_grade = ''A'', g_resaleValue = 85,
      g_gradedAt = ''2024-12-31T10:00:00Z'', g_gradedBy = ''user-1'', g_condition = None,
      g_notes = None\<rparr>"

definition processing_store ::
  "booking \<Rightarrow> job \<Rightarrow> sanitisation_record list \<Rightarrow> grading_record list \<Rightarrow> store" where
  "processing_store b j srs grs =
     \<lparr>mockBookings = [b], mockJobs = [j], mockCommissions = [], mockInvoices = [],
      mockSanitisationRecords = srs, mockGradingRecords = grs\<rparr>"

definition ex_collected_booking :: booking where
  "ex_collected_booking = ex_booking\<lparr>b_status := Collected, b_jobId := Some ''job-1''\<rparr>"

text \<open>The booking once graded.\<close>

definition ex_graded_booking :: booking where
  "ex_graded_booking = ex_booking\<lparr>b_status := Graded\<rparr>"

text \<open>Three commissions, one in each status, over two periods.\<close>

definition ex_commissions :: "commission list" where
  "ex_commissions =
     [ex_commission,
      ex_commission\<lparr>cm_id := ''comm-2'', cm_status := Pending, cm_commissionAmount := Fin 50,
                     cm_period := ''2025-01'', cm_paidDate := None\<rparr>,
      ex_commission\<lparr>cm_id := ''comm-3'', cm_status := Approved, cm_commissionAmount := Fin 30,
                     cm_period := ''2025-01'', cm_paidDate := None\<rparr>]"


definition big_commissions :: "commission list" where
  "big_commissions =
     [ex_commission\<lparr>cm_id := ''comm-1'', cm_status := Pending, cm_commissionAmount := Fin 1,
                     cm_period := ''2025-01'', cm_paidDate := None\<rparr>,
      ex_commission\<lparr>cm_id := ''comm-2'', cm_status := Paid,
                     cm_commissionAmount := Fin 9007199254740992, cm_period := ''2024-12''\<rparr>,
      ex_commission\<lparr>cm_id := ''comm-3'', cm_status := Pending, cm_commissionAmount := Fin 1,
                     cm_period := ''2025-01'', cm_paidDate := None\<rparr>]"

section \<open>Properties\<close>

subsection \<open>Lookup and update in place\<close>

lemma update_found_same: "List.find p xs = Some x \<Longrightarrow> update_found p (\<lambda>_. x) xs = xs"
  by (induction xs) (auto split: if_splits)

lemma find_update_found:
  "List.find p xs = Some x \<Longrightarrow> p y \<Longrightarrow> List.find p (update_found p (\<lambda>_. y) xs) = Some y"
  by (induction xs) (auto split: if_splits)

lemma find_has_id: "List.find (has_id i) bs = Some b \<Longrightarrow> b_id b = i"
  by (auto simp: find_Some_iff has_id_def)


lemma set_timestamps_status: "b_status (set_timestamps e s b) = b_status b"
  by (simp add: set_timestamps_def)

lemma set_timestamps_id: "b_id (set_timestamps e s b) = b_id b"
  by (simp add: set_timestamps_def)



lemma env0_no_simulation: "\<not> shouldSimulateError env0 service"
  by (simp add: env0_def)

lemma env0_now: "now_iso env0 = ''2025-01-01T12:00:00.000Z''"
  by (simp add: env0_def now_iso_def)


subsection \<open>Booking status transitions\<close>











text \<open>
  How that state arises. A driver is assigned to the booking in \<open>created\<close>, which creates
  its job in \<open>routed\<close>; \<open>UpdateStatus\<close> takes the booking to \<open>collected\<close> and on to
  \<open>sanitised\<close>, stamping \<open>sanitisedAt\<close>, while the job is still \<open>routed\<close>, a status the
  cascade leaves alone. The job service, which is not among the sources, then moves the
  job along the driver's steps to \<open>warehouse\<close>. A second request for \<open>sanitised\<close> leaves
  the bookings as they are and takes the job to \<open>sanitised\<close>.
\<close>

lemma updateBookingStatus_repeated_request:
  "(let st1 = snd (assignDriverMock env0 (ex_store ex_booking) ''booking-1'' ''driver-1'' ''admin-1'');
        st2 = snd (updateBookingStatusMock env0 st1 ''booking-1'' Collected);
        st3 = snd (updateBookingStatusMock env0 st2 ''booking-1'' Sanitised);
        st4 = st3\<lparr>mockJobs := map (\<lambda>j. j\<lparr>j_status := J_warehouse\<rparr>) (mockJobs st3)\<rparr>;
        st5 = snd (updateBookingStatusMock env0 st4 ''booking-1'' Sanitised)
    in map b_status (mockBookings st3) = [Sanitised]
       \<and> map b_sanitisedAt (mockBookings st3) = [Some ''2025-01-01T12:00:00.000Z'']
       \<and> map j_status (mockJobs st3) = [J_routed]
       \<and> mockBookings st5 = mockBookings st4
       \<and> map j_status (mockJobs st4) = [J_warehouse]
       \<and> map j_status (mockJobs st5) = [J_sanitised])"
  by (simp add: assignDriverMock_def updateBookingStatusMock_def env0_no_simulation env0_now
        ex_store_def has_id_def job_has_id_def set_timestamps_def sync_job_def ex_booking_def
        new_job_def new_job_id_def Let_def)

text \<open>
  The amended claim says nothing about a request for another status while the booking is
  \<open>completed\<close> or \<open>cancelled\<close>. The table has no entry for these two, and the check is
  skipped when the list of next statuses is empty: a completed booking goes back to
  \<open>created\<close>.
\<close>

lemma updateBookingStatus_terminal_unchecked:
  "fst (updateBookingStatusMock env0 (ex_store (ex_booking\<lparr>b_status := Completed\<rparr>))
          ''booking-1'' Created)
     = Inr (ex_booking\<lparr>b_status := Created\<rparr>)"
  by (simp add: updateBookingStatusMock_def env0_no_simulation ex_store_def has_id_def
        set_timestamps_def ex_booking_def Let_def)

subsection \<open>Completion through \<open>UpdateStatus\<close>\<close>

lemma updateBookingStatus_keeps_billing:
  "mockCommissions (snd (updateBookingStatusMock e st bookingId status)) = mockCommissions st
   \<and> mockInvoices (snd (updateBookingStatusMock e st bookingId status)) = mockInvoices st"
  by (simp add: updateBookingStatusMock_def Let_def split: option.split)

text \<open>
  Claim C2 fails on the code. \<open>updateBookingStatusMock\<close> takes a graded booking that has a
  reseller to \<open>completed\<close> and stamps \<open>completedAt\<close>, but it creates no commission and no
  invoice; \<open>completeBookingMock\<close>, on the same booking, creates one of each.
\<close>

theorem updateBookingStatus_completed_creates_nothing:
  "fst (updateBookingStatusMock env0 (ex_store (ex_booking\<lparr>b_status := Graded\<rparr>)) ''booking-1'' Completed)
     = Inr (ex_booking\<lparr>b_status := Completed, b_completedAt := Some ''2025-01-01T12:00:00.000Z''\<rparr>)
   \<and> mockCommissions (snd (updateBookingStatusMock env0 (ex_store (ex_booking\<lparr>b_status := Graded\<rparr>))
                             ''booking-1'' Completed)) = []
   \<and> mockInvoices (snd (updateBookingStatusMock env0 (ex_store (ex_booking\<lparr>b_status := Graded\<rparr>))
                          ''booking-1'' Completed)) = []
   \<and> length (mockCommissions (snd (completeBookingMock env0 (ex_store (ex_booking\<lparr>b_status := Graded\<rparr>))
                                      ''booking-1'' ''admin-1''))) = 1
   \<and> length (mockInvoices (snd (completeBookingMock env0 (ex_store (ex_booking\<lparr>b_status := Graded\<rparr>))
                                   ''booking-1'' ''admin-1''))) = 1"
  by (simp add: updateBookingStatusMock_def completeBookingMock_def env0_no_simulation env0_now
        ex_store_def has_id_def set_timestamps_def ex_booking_def Let_def)

subsection \<open>Invoice status transitions\<close>

lemma find_invoice_has_id: "List.find (invoice_has_id i) xs = Some x \<Longrightarrow> i_id x = i"
  by (auto simp: find_Some_iff invoice_has_id_def)

lemma billing_store_find_invoice:
  "i_id i = ''inv-1'' \<Longrightarrow>
     List.find (invoice_has_id ''inv-1'') (mockInvoices (billing_store cs [i])) = Some i"
  by (simp add: billing_store_def invoice_has_id_def)

text \<open>
  Claim C3, as amended. For an invoice that \<open>updateInvoiceStatus\<close> finds: the request for
  \<open>cancelled\<close> succeeds from every status, \<open>cancelled\<close> itself included; and while the
  invoice is not cancelled, a request for another status succeeds exactly when it is the
  current status (a no-op) or a step of the table \<open>draft \<rightarrow> sent\<close>, \<open>sent \<rightarrow> paid\<close>,
  \<open>sent \<rightarrow> overdue\<close>, \<open>overdue \<rightarrow> paid\<close>, and otherwise fails with a ValidationError that
  lists the allowed next statuses followed by \<open>or cancelled\<close>, leaving the store as it was.
\<close>

theorem updateInvoiceStatus_table:
  assumes sim: "\<not> shouldSimulateError e ''invoices''"
    and found: "List.find (invoice_has_id invoiceId) (mockInvoices st) = Some iv"
  shows
    "fst (updateInvoiceStatusMock e st invoiceId InvCancelled) = Inr (iv\<lparr>i_status := InvCancelled\<rparr>)
     \<and> List.find (invoice_has_id invoiceId)
          (mockInvoices (snd (updateInvoiceStatusMock e st invoiceId InvCancelled)))
         = Some (iv\<lparr>i_status := InvCancelled\<rparr>)
     \<and> (i_status iv \<noteq> InvCancelled \<and> target \<noteq> InvCancelled \<longrightarrow>
          (if target = i_status iv
              \<or> (i_status iv, target) \<in> {(Draft, Sent), (Sent, InvPaid), (Sent, Overdue), (Overdue, InvPaid)}
           then fst (updateInvoiceStatusMock e st invoiceId target) = Inr (iv\<lparr>i_status := target\<rparr>)
             \<and> List.find (invoice_has_id invoiceId)
                  (mockInvoices (snd (updateInvoiceStatusMock e st invoiceId target)))
                 = Some (iv\<lparr>i_status := target\<rparr>)
           else updateInvoiceStatusMock e st invoiceId target =
                  (Inl (ApiError VALIDATION_ERROR
                          (''Invalid status transition from '' @ quoted (invoice_status_name (i_status iv))
                             @ '' to '' @ quoted (invoice_status_name target)
                             @ ''. Allowed next statuses: ''
                             @ join '', '' (map invoice_status_name (invoice_validTransitions (i_status iv)))
                             @ '', or cancelled'')
                          400
                          [(''invoiceId'', invoiceId),
                           (''currentStatus'', invoice_status_name (i_status iv)),
                           (''requestedStatus'', invoice_status_name target)]), st)))"
proof (intro conjI impI)
  have idc: "invoice_has_id invoiceId (iv\<lparr>i_status := s\<rparr>)" for s
    using find_invoice_has_id [OF found] by (simp add: invoice_has_id_def)
  show "fst (updateInvoiceStatusMock e st invoiceId InvCancelled) = Inr (iv\<lparr>i_status := InvCancelled\<rparr>)"
    using sim found by (simp add: updateInvoiceStatusMock_def Let_def)
  show "List.find (invoice_has_id invoiceId)
          (mockInvoices (snd (updateInvoiceStatusMock e st invoiceId InvCancelled)))
         = Some (iv\<lparr>i_status := InvCancelled\<rparr>)"
    using sim found find_update_found [OF found idc [of InvCancelled]]
    by (simp add: updateInvoiceStatusMock_def Let_def)
  assume h: "i_status iv \<noteq> InvCancelled \<and> target \<noteq> InvCancelled"
  show "if target = i_status iv
              \<or> (i_status iv, target) \<in> {(Draft, Sent), (Sent, InvPaid), (Sent, Overdue), (Overdue, InvPaid)}
           then fst (updateInvoiceStatusMock e st invoiceId target) = Inr (iv\<lparr>i_status := target\<rparr>)
             \<and> List.find (invoice_has_id invoiceId)
                  (mockInvoices (snd (updateInvoiceStatusMock e st invoiceId target)))
                 = Some (iv\<lparr>i_status := target\<rparr>)
           else updateInvoiceStatusMock e st invoiceId target =
                  (Inl (ApiError VALIDATION_ERROR
                          (''Invalid status transition from '' @ quoted (invoice_status_name (i_status iv))
                             @ '' to '' @ quoted (invoice_status_name target)
                             @ ''. Allowed next statuses: ''
                             @ join '', '' (map invoice_status_name (invoice_validTransitions (i_status iv)))
                             @ '', or cancelled'')
                          400
                          [(''invoiceId'', invoiceId),
                           (''currentStatus'', invoice_status_name (i_status iv)),
                           (''requestedStatus'', invoice_status_name target)]), st)"
  proof (cases "target = i_status iv
              \<or> (i_status iv, target) \<in> {(Draft, Sent), (Sent, InvPaid), (Sent, Overdue), (Overdue, InvPaid)}")
    case True
    then have acc: "target = i_status iv \<or> target \<in> set (invoice_validTransitions (i_status iv))"
      by (cases "i_status iv") auto
    have "fst (updateInvoiceStatusMock e st invoiceId target) = Inr (iv\<lparr>i_status := target\<rparr>)"
      using sim found h acc by (auto simp: updateInvoiceStatusMock_def Let_def)
    moreover have "List.find (invoice_has_id invoiceId)
                  (mockInvoices (snd (updateInvoiceStatusMock e st invoiceId target)))
                 = Some (iv\<lparr>i_status := target\<rparr>)"
      using sim found h acc find_update_found [OF found idc [of target]]
      by (auto simp: updateInvoiceStatusMock_def Let_def)
    ultimately show ?thesis using True by simp
  next
    case False
    with h have rej: "target \<noteq> i_status iv \<and> invoice_validTransitions (i_status iv) \<noteq> []
        \<and> target \<notin> set (invoice_validTransitions (i_status iv))"
      by (cases "i_status iv"; cases target) auto
    have "updateInvoiceStatusMock e st invoiceId target =
        (Inl (invoice_transition_error invoiceId (i_status iv) target), st)"
      using sim found h rej by (simp add: updateInvoiceStatusMock_def Let_def)
    then show ?thesis using False by (simp add: invoice_transition_error_def)
  qed
qed


text \<open>
  Witness for C3: a draft invoice is cancelled, is sent, and is refused the step to
  \<open>paid\<close> with the message that lists \<open>sent, cancelled, or cancelled\<close>.
\<close>

theorem updateInvoiceStatus_table_witness:
  "\<not> shouldSimulateError env0 ''invoices''
   \<and> List.find (invoice_has_id ''inv-1'') (mockInvoices (billing_store [] [ex_invoice])) = Some ex_invoice
   \<and> fst (updateInvoiceStatusMock env0 (billing_store [] [ex_invoice]) ''inv-1'' InvCancelled)
       = Inr (ex_invoice\<lparr>i_status := InvCancelled\<rparr>)
   \<and> fst (updateInvoiceStatusMock env0 (billing_store [] [ex_invoice]) ''inv-1'' Sent)
       = Inr (ex_invoice\<lparr>i_status := Sent\<rparr>)
   \<and> updateInvoiceStatusMock env0 (billing_store [] [ex_invoice]) ''inv-1'' InvPaid =
       (Inl (ApiError VALIDATION_ERROR
               (''Invalid status transition from '' @ quoted ''draft'' @ '' to '' @ quoted ''paid''
                  @ ''. Allowed next statuses: sent, cancelled, or cancelled'')
               400
               [(''invoiceId'', ''inv-1''), (''currentStatus'', ''draft''),
                (''requestedStatus'', ''paid'')]),
        billing_store [] [ex_invoice])"
proof -
  have sim: "\<not> shouldSimulateError env0 ''invoices''"
    by (rule env0_no_simulation)
  have found: "List.find (invoice_has_id ''inv-1'') (mockInvoices (billing_store [] [ex_invoice]))
      = Some ex_invoice"
    by (rule billing_store_find_invoice) (simp add: ex_invoice_def)
  have st: "i_status ex_invoice = Draft"
    by (simp add: ex_invoice_def)
  note t = updateInvoiceStatus_table [OF sim found]
  have "fst (updateInvoiceStatusMock env0 (billing_store [] [ex_invoice]) ''inv-1'' InvCancelled)
       = Inr (ex_invoice\<lparr>i_status := InvCancelled\<rparr>)"
    using t [of Sent] by simp
  moreover have "fst (updateInvoiceStatusMock env0 (billing_store [] [ex_invoice]) ''inv-1'' Sent)
       = Inr (ex_invoice\<lparr>i_status := Sent\<rparr>)"
    using t [of Sent] st by simp
  moreover have "updateInvoiceStatusMock env0 (billing_store [] [ex_invoice]) ''inv-1'' InvPaid =
       (Inl (ApiError VALIDATION_ERROR
               (''Invalid status transition from '' @ quoted ''draft'' @ '' to '' @ quoted ''paid''
                  @ ''. Allowed next statuses: sent, cancelled, or cancelled'')
               400
               [(''invoiceId'', ''inv-1''), (''currentStatus'', ''draft''),
                (''requestedStatus'', ''paid'')]),
        billing_store [] [ex_invoice])"
    using t [of InvPaid] st by simp
  ultimately show ?thesis using sim found by blast
qed

text \<open>
  Counterexample to C3 as stated: on an invoice that is already cancelled, the request
  for \<open>cancelled\<close> is not rejected; it succeeds and returns the invoice.
\<close>

theorem updateInvoiceStatus_cancelled_again_counterexample:
  "i_status (ex_invoice\<lparr>i_status := InvCancelled\<rparr>) = InvCancelled
   \<and> updateInvoiceStatusMock env0 (billing_store [] [ex_invoice\<lparr>i_status := InvCancelled\<rparr>])
        ''inv-1'' InvCancelled
       = (Inr (ex_invoice\<lparr>i_status := InvCancelled\<rparr>),
          billing_store [] [ex_invoice\<lparr>i_status := InvCancelled\<rparr>])"
  by (simp add: updateInvoiceStatusMock_def env0_no_simulation billing_store_def invoice_has_id_def
        ex_invoice_def Let_def)

text \<open>
  The amended claim says nothing about a request for another status on a cancelled
  invoice. The table gives \<open>cancelled\<close> no next status, and the check is skipped when
  that list is empty: a cancelled invoice goes back to \<open>draft\<close>.
\<close>

lemma updateInvoiceStatus_cancelled_unchecked:
  "fst (updateInvoiceStatusMock env0 (billing_store [] [ex_invoice\<lparr>i_status := InvCancelled\<rparr>])
          ''inv-1'' Draft)
     = Inr (ex_invoice\<lparr>i_status := Draft\<rparr>)"
  by (simp add: updateInvoiceStatusMock_def env0_no_simulation billing_store_def invoice_has_id_def
        ex_invoice_def Let_def)

subsection \<open>Commission status transitions\<close>

lemma find_commission_has_id: "List.find (commission_has_id i) xs = Some x \<Longrightarrow> cm_id x = i"
  by (auto simp: find_Some_iff commission_has_id_def)

lemma commission_single_next: "s \<noteq> Paid \<Longrightarrow> \<exists>nxt. commission_validTransitions s = [nxt]"
  by (cases s) auto

lemma updateCommissionStatus_before_paid:
  assumes sim: "\<not> shouldSimulateError e ''commission''"
    and found: "List.find (commission_has_id commissionId) (mockCommissions st) = Some c"
    and open_status: "cm_status c \<noteq> Paid"
  shows
    "(target = cm_status c \<longrightarrow>
        updateCommissionStatusMock e st commissionId target = (Inr c, st))
     \<and> (commission_validTransitions (cm_status c) = [target] \<longrightarrow>
          fst (updateCommissionStatusMock e st commissionId target)
            = Inr (if target = Paid \<and> \<not> truthy (cm_paidDate c)
                   then c\<lparr>cm_status := target, cm_paidDate := Some (now_iso e)\<rparr>
                   else c\<lparr>cm_status := target\<rparr>))
     \<and> (target \<noteq> cm_status c \<and> commission_validTransitions (cm_status c) \<noteq> [target] \<longrightarrow>
          (\<exists>nxt. commission_validTransitions (cm_status c) = [nxt]
             \<and> updateCommissionStatusMock e st commissionId target =
                 (Inl (ApiError VALIDATION_ERROR
                         (''Invalid status transition from ''
                            @ quoted (commission_status_name (cm_status c))
                            @ '' to '' @ quoted (commission_status_name target)
                            @ ''. Allowed next status: '' @ commission_status_name nxt)
                         400 []), st)))"
proof (intro conjI impI)
  assume same: "target = cm_status c"
  have "c\<lparr>cm_status := cm_status c\<rparr> = c" by simp
  then show "updateCommissionStatusMock e st commissionId target = (Inr c, st)"
    using sim found same open_status update_found_same [OF found]
    by (simp add: updateCommissionStatusMock_def Let_def)
next
  assume nxt: "commission_validTransitions (cm_status c) = [target]"
  show "fst (updateCommissionStatusMock e st commissionId target)
            = Inr (if target = Paid \<and> \<not> truthy (cm_paidDate c)
                   then c\<lparr>cm_status := target, cm_paidDate := Some (now_iso e)\<rparr>
                   else c\<lparr>cm_status := target\<rparr>)"
    using sim found nxt by (simp add: updateCommissionStatusMock_def Let_def)
next
  assume h: "target \<noteq> cm_status c \<and> commission_validTransitions (cm_status c) \<noteq> [target]"
  obtain nxt where n: "commission_validTransitions (cm_status c) = [nxt]"
    using commission_single_next [OF open_status] by blast
  with h have ne: "target \<noteq> nxt" by auto
  have "updateCommissionStatusMock e st commissionId target =
      (Inl (commission_transition_error (cm_status c) target), st)"
    using sim found h n ne by (simp add: updateCommissionStatusMock_def Let_def)
  with n show "\<exists>nxt. commission_validTransitions (cm_status c) = [nxt]
             \<and> updateCommissionStatusMock e st commissionId target =
                 (Inl (ApiError VALIDATION_ERROR
                         (''Invalid status transition from ''
                            @ quoted (commission_status_name (cm_status c))
                            @ '' to '' @ quoted (commission_status_name target)
                            @ ''. Allowed next status: '' @ commission_status_name nxt)
                         400 []), st)"
    by (simp add: commission_transition_error_def)
qed

lemma updateCommissionStatus_paid_again:
  assumes sim: "\<not> shouldSimulateError e ''commission''"
    and found: "List.find (commission_has_id commissionId) (mockCommissions st) = Some c"
    and paid: "cm_status c = Paid"
    and stamped: "truthy (cm_paidDate c)"
  shows "updateCommissionStatusMock e st commissionId Paid = (Inr c, st)"
proof -
  have "updateCommissionStatusMock e st commissionId (cm_status c) = (Inr c, st)"
    using sim found stamped update_found_same [OF found]
    by (simp add: updateCommissionStatusMock_def Let_def)
  then show ?thesis by (simp only: paid)
qed

text \<open>
  Claim C4 fails on the code. A commission in the final status \<open>paid\<close> is taken back to
  \<open>pending\<close> by \<open>updateCommissionStatus\<close>: the table gives \<open>paid\<close> no next status, and the
  check is skipped when that list is empty.
\<close>

theorem updateCommissionStatus_leaves_paid:
  "cm_status ex_commission = Paid
   \<and> updateCommissionStatusMock env0 (billing_store [ex_commission] []) ''comm-1'' Pending
       = (Inr (ex_commission\<lparr>cm_status := Pending\<rparr>),
          billing_store [ex_commission\<lparr>cm_status := Pending\<rparr>] [])"
  by (simp add: updateCommissionStatusMock_def env0_no_simulation billing_store_def
        commission_has_id_def ex_commission_def Let_def)

subsection \<open>Completeness of sanitisation and grading\<close>

lemma allAssetsSanitised_covers:
  "allAssetsSanitised records bookingId b
     = covers (sanitised_ids records bookingId) b"
  by (auto simp: allAssetsSanitised_def covers_def sanitised_ids_def list_all_iff Let_def)

lemma allAssetsGraded_covers:
  "allAssetsGraded records bookingId b
     = covers (graded_ids records bookingId) b"
  by (auto simp: allAssetsGraded_def covers_def graded_ids_def list_all_iff Let_def)

lemma job_to_sanitised_table:
  "job_to_sanitised = (\<lambda>j. j\<lparr>j_status := cascade_table Sanitised (j_status j)\<rparr>)"
proof
  fix j show "job_to_sanitised j = j\<lparr>j_status := cascade_table Sanitised (j_status j)\<rparr>"
    by (cases "j_status j") (simp_all add: job_to_sanitised_def)
qed

lemma job_to_graded_table:
  "job_to_graded = (\<lambda>j. j\<lparr>j_status := cascade_table Graded (j_status j)\<rparr>)"
proof
  fix j show "job_to_graded j = j\<lparr>j_status := cascade_table Graded (j_status j)\<rparr>"
    by (cases "j_status j") (simp_all add: job_to_graded_def)
qed

lemma createSanitisationRecord_effect:
  assumes sim: "\<not> shouldSimulateError e ''sanitisation''"
  shows
    "\<exists>r. fst (createSanitisationRecordMock e st bookingId assetId meth performedBy md nts) = Inr r
       \<and> s_bookingId r = bookingId \<and> s_assetId r = assetId
       \<and> mockSanitisationRecords
            (snd (createSanitisationRecordMock e st bookingId assetId meth performedBy md nts))
           = mockSanitisationRecords st @ [r]
       \<and> (case List.find (has_id bookingId) (mockBookings st) of
             None \<Rightarrow>
               mockBookings (snd (createSanitisationRecordMock e st bookingId assetId meth performedBy md nts))
                 = mockBookings st
               \<and> mockJobs (snd (createSanitisationRecordMock e st bookingId assetId meth performedBy md nts))
                 = mockJobs st
           | Some b \<Rightarrow>
               if covers (sanitised_ids (mockSanitisationRecords st @ [r]) bookingId) b
                  \<and> b_status b = Collected
               then
                 mockBookings (snd (createSanitisationRecordMock e st bookingId assetId meth performedBy md nts))
                   = update_found (has_id bookingId)
                       (\<lambda>_. b\<lparr>b_status := Sanitised, b_sanitisedAt := Some (now_iso e)\<rparr>) (mockBookings st)
                 \<and> mockJobs (snd (createSanitisationRecordMock e st bookingId assetId meth performedBy md nts))
                   = (if truthy (b_jobId b)
                      then update_found (job_has_id (or_empty (b_jobId b)))
                             (\<lambda>j. j\<lparr>j_status := cascade_table Sanitised (j_status j)\<rparr>) (mockJobs st)
                      else mockJobs st)
               else
                 mockBookings (snd (createSanitisationRecordMock e st bookingId assetId meth performedBy md nts))
                   = mockBookings st
                 \<and> mockJobs (snd (createSanitisationRecordMock e st bookingId assetId meth performedBy md nts))
                   = mockJobs st)"
proof -
  let ?r = "new_sanitisation_record e (mockSanitisationRecords st) bookingId assetId meth performedBy md nts"
  have f: "s_bookingId ?r = bookingId \<and> s_assetId ?r = assetId"
    by (simp add: new_sanitisation_record_def)
  show ?thesis
    apply (rule exI [of _ ?r])
    using sim f
    by (simp add: createSanitisationRecordMock_def Let_def allAssetsSanitised_covers
          job_to_sanitised_table split: option.split)
qed

lemma createGradingRecord_effect:
  assumes sim: "\<not> shouldSimulateError e ''grading''"
  shows
    "\<exists>r. fst (createGradingRecordMock e st bookingId assetId assetCategory grade gradedBy cond nts) = Inr r
       \<and> g_bookingId r = bookingId \<and> g_assetId r = assetId
       \<and> mockGradingRecords
            (snd (createGradingRecordMock e st bookingId assetId assetCategory grade gradedBy cond nts))
           = mockGradingRecords st @ [r]
       \<and> (case List.find (has_id bookingId) (mockBookings st) of
             None \<Rightarrow>
               mockBookings (snd (createGradingRecordMock e st bookingId assetId assetCategory grade gradedBy cond nts))
                 = mockBookings st
               \<and> mockJobs (snd (createGradingRecordMock e st bookingId assetId assetCategory grade gradedBy cond nts))
                 = mockJobs st
           | Some b \<Rightarrow>
               if covers (graded_ids (mockGradingRecords st @ [r]) bookingId) b
                  \<and> b_status b = Sanitised
               then
                 mockBookings (snd (createGradingRecordMock e st bookingId assetId assetCategory grade gradedBy cond nts))
                   = update_found (has_id bookingId)
                       (\<lambda>_. b\<lparr>b_status := Graded, b_gradedAt := Some (now_iso e)\<rparr>) (mockBookings st)
                 \<and> mockJobs (snd (createGradingRecordMock e st bookingId assetId assetCategory grade gradedBy cond nts))
                   = (if truthy (b_jobId b)
                      then update_found (job_has_id (or_empty (b_jobId b)))
                             (\<lambda>j. j\<lparr>j_status := cascade_table Graded (j_status j)\<rparr>) (mockJobs st)
                      else mockJobs st)
               else
                 mockBookings (snd (createGradingRecordMock e st bookingId assetId assetCategory grade gradedBy cond nts))
                   = mockBookings st
                 \<and> mockJobs (snd (createGradingRecordMock e st bookingId assetId assetCategory grade gradedBy cond nts))
                   = mockJobs st)"
proof -
  let ?r = "new_grading_record e bookingId assetId assetCategory grade gradedBy cond nts"
  have f: "g_bookingId ?r = bookingId \<and> g_assetId ?r = assetId"
    by (simp add: new_grading_record_def)
  show ?thesis
    apply (rule exI [of _ ?r])
    using sim f
    by (simp add: createGradingRecordMock_def Let_def allAssetsGraded_covers
          job_to_graded_table split: option.split)
qed


lemma processing_store_simps:
  "mockBookings (processing_store b j srs grs) = [b]"
  "mockJobs (processing_store b j srs grs) = [j]"
  "mockSanitisationRecords (processing_store b j srs grs) = srs"
  "mockGradingRecords (processing_store b j srs grs) = grs"
  by (simp_all add: processing_store_def)

lemma ex_collected_booking_simps:
  "b_id ex_collected_booking = ''booking-1''"
  "b_status ex_collected_booking = Collected"
  "b_jobId ex_collected_booking = Some ''job-1''"
  "categoryId ` set (b_assets ex_collected_booking) = {''laptop'', ''monitor''}"
  by (simp_all add: ex_collected_booking_def ex_booking_def)

lemma ex_job_simps:
  "j_id ex_job = ''job-1''" "j_status ex_job = J_warehouse"
  by (simp_all add: ex_job_def)

lemma sanitised_ids_code:
  "sanitised_ids rs bid = set (map s_assetId (filter (\<lambda>x. s_bookingId x = bid) rs))"
  by (auto simp: sanitised_ids_def)

lemma graded_ids_code:
  "graded_ids rs bid = set (map g_assetId (filter (\<lambda>x. g_bookingId x = bid) rs))"
  by (auto simp: graded_ids_def)

lemma ex_record_simps:
  "s_bookingId ex_sanitisation_record = ''booking-1''" "s_assetId ex_sanitisation_record = ''laptop''"
  "g_bookingId ex_grading_record = ''booking-1''" "g_assetId ex_grading_record = ''laptop''"
  by (simp_all add: ex_sanitisation_record_def ex_grading_record_def)

text \<open>
  Claim C5. Creating a sanitisation (a grading) record appends the record and returns
  it. If, with the new record, the identifiers covered by all records of the booking are
  a superset of the categories of its line items and the booking is in \<open>collected\<close>
  (in \<open>sanitised\<close>), the booking moves to \<open>sanitised\<close> (to \<open>graded\<close>) with the milestone
  timestamp stamped, and the linked job follows the Booking-to-Job table. Otherwise, and
  when no booking has the identifier, bookings and jobs are left as they were.
\<close>

theorem completeness_triggers:
  assumes sim_s: "\<not> shouldSimulateError e ''sanitisation''"
    and sim_g: "\<not> shouldSimulateError e ''grading''"
  shows
    "(\<exists>r. fst (createSanitisationRecordMock e st bookingId assetId meth performedBy md nts) = Inr r
       \<and> s_bookingId r = bookingId \<and> s_assetId r = assetId
       \<and> mockSanitisationRecords
            (snd (createSanitisationRecordMock e st bookingId assetId meth performedBy md nts))
           = mockSanitisationRecords st @ [r]
       \<and> (case List.find (has_id bookingId) (mockBookings st) of
             None \<Rightarrow>
               mockBookings (snd (createSanitisationRecordMock e st bookingId assetId meth performedBy md nts))
                 = mockBookings st
               \<and> mockJobs (snd (createSanitisationRecordMock e st bookingId assetId meth performedBy md nts))
                 = mockJobs st
           | Some b \<Rightarrow>
               if covers (sanitised_ids (mockSanitisationRecords st @ [r]) bookingId) b
                  \<and> b_status b = Collected
               then
                 mockBookings (snd (createSanitisationRecordMock e st bookingId assetId meth performedBy md nts))
                   = update_found (has_id bookingId)
                       (\<lambda>_. b\<lparr>b_status := Sanitised, b_sanitisedAt := Some (now_iso e)\<rparr>) (mockBookings st)
                 \<and> mockJobs (snd (createSanitisationRecordMock e st bookingId assetId meth performedBy md nts))
                   = (if truthy (b_jobId b)
                      then update_found (job_has_id (or_empty (b_jobId b)))
                             (\<lambda>j. j\<lparr>j_status := cascade_table Sanitised (j_status j)\<rparr>) (mockJobs st)
                      else mockJobs st)
               else
                 mockBookings (snd (createSanitisationRecordMock e st bookingId assetId meth performedBy md nts))
                   = mockBookings st
                 \<and> mockJobs (snd (createSanitisationRecordMock e st bookingId assetId meth performedBy md nts))
                   = mockJobs st))
     \<and> (\<exists>r. fst (createGradingRecordMock e st bookingId assetId assetCategory grade gradedBy cond nts) = Inr r
       \<and> g_bookingId r = bookingId \<and> g_assetId r = assetId
       \<and> mockGradingRecords
            (snd (createGradingRecordMock e st bookingId assetId assetCategory grade gradedBy cond nts))
           = mockGradingRecords st @ [r]
       \<and> (case List.find (has_id bookingId) (mockBookings st) of
             None \<Rightarrow>
               mockBookings (snd (createGradingRecordMock e st bookingId assetId assetCategory grade gradedBy cond nts))
                 = mockBookings st
               \<and> mockJobs (snd (createGradingRecordMock e st bookingId assetId assetCategory grade gradedBy cond nts))
                 = mockJobs st
           | Some b \<Rightarrow>
               if covers (graded_ids (mockGradingRecords st @ [r]) bookingId) b
                  \<and> b_status b = Sanitised
               then
                 mockBookings (snd (createGradingRecordMock e st bookingId assetId assetCategory grade gradedBy cond nts))
                   = update_found (has_id bookingId)
                       (\<lambda>_. b\<lparr>b_status := Graded, b_gradedAt := Some (now_iso e)\<rparr>) (mockBookings st)
                 \<and> mockJobs (snd (createGradingRecordMock e st bookingId assetId assetCategory grade gradedBy cond nts))
                   = (if truthy (b_jobId b)
                      then update_found (job_has_id (or_empty (b_jobId b)))
                             (\<lambda>j. j\<lparr>j_status := cascade_table Graded (j_status j)\<rparr>) (mockJobs st)
                      else mockJobs st)
               else
                 mockBookings (snd (createGradingRecordMock e st bookingId assetId assetCategory grade gradedBy cond nts))
                   = mockBookings st
                 \<and> mockJobs (snd (createGradingRecordMock e st bookingId assetId assetCategory grade gradedBy cond nts))
                   = mockJobs st))"
  using createSanitisationRecord_effect [OF sim_s] createGradingRecord_effect [OF sim_g]
  by (rule conjI)


text \<open>
  Witness for C5: a collected booking of laptops and monitors with a job in \<open>warehouse\<close>.
  The record for the laptops alone leaves the booking as it is; the record for the
  monitors, after that for the laptops, takes booking and job to \<open>sanitised\<close>; and the
  same for grading, from \<open>sanitised\<close> to \<open>graded\<close>.
\<close>

theorem completeness_triggers_witness:
  "\<not> shouldSimulateError env0 ''sanitisation'' \<and> \<not> shouldSimulateError env0 ''grading''
   \<and> mockBookings (snd (createSanitisationRecordMock env0
          (processing_store ex_collected_booking ex_job [] [])
          ''booking-1'' ''laptop'' ''blancco'' ''user-1'' None None))
       = [ex_collected_booking]
   \<and> mockBookings (snd (createSanitisationRecordMock env0
          (processing_store ex_collected_booking ex_job [ex_sanitisation_record] [])
          ''booking-1'' ''monitor'' ''blancco'' ''user-1'' None None))
       = [ex_collected_booking\<lparr>b_status := Sanitised, b_sanitisedAt := Some (now_iso env0)\<rparr>]
   \<and> mockJobs (snd (createSanitisationRecordMock env0
          (processing_store ex_collected_booking ex_job [ex_sanitisation_record] [])
          ''booking-1'' ''monitor'' ''blancco'' ''user-1'' None None))
       = [ex_job\<lparr>j_status := J_sanitised\<rparr>]
   \<and> mockBookings (snd (createGradingRecordMock env0
          (processing_store (ex_collected_booking\<lparr>b_status := Sanitised\<rparr>)
             (ex_job\<lparr>j_status := J_sanitised\<rparr>) [] [ex_grading_record])
          ''booking-1'' ''monitor'' ''monitor'' ''B'' ''user-1'' None None))
       = [ex_collected_booking\<lparr>b_status := Graded, b_gradedAt := Some (now_iso env0)\<rparr>]
   \<and> mockJobs (snd (createGradingRecordMock env0
          (processing_store (ex_collected_booking\<lparr>b_status := Sanitised\<rparr>)
             (ex_job\<lparr>j_status := J_sanitised\<rparr>) [] [ex_grading_record])
          ''booking-1'' ''monitor'' ''monitor'' ''B'' ''user-1'' None None))
       = [ex_job\<lparr>j_status := J_graded\<rparr>]"
proof -
  have sim_s: "\<not> shouldSimulateError env0 ''sanitisation''"
    and sim_g: "\<not> shouldSimulateError env0 ''grading''"
    by (rule env0_no_simulation)+
  note t = completeness_triggers [OF sim_s sim_g]
  note ev = processing_store_simps has_id_def job_has_id_def covers_def sanitised_ids_code
    graded_ids_code ex_collected_booking_simps ex_job_simps ex_record_simps
  let ?st0 = "processing_store ex_collected_booking ex_job [] []"
  let ?st1 = "processing_store ex_collected_booking ex_job [ex_sanitisation_record] []"
  let ?st2 = "processing_store (ex_collected_booking\<lparr>b_status := Sanitised\<rparr>)
                (ex_job\<lparr>j_status := J_sanitised\<rparr>) [] [ex_grading_record]"
  have a: "mockBookings (snd (createSanitisationRecordMock env0 ?st0
          ''booking-1'' ''laptop'' ''blancco'' ''user-1'' None None)) = [ex_collected_booking]"
    using conjunct1 [OF t [where st = ?st0 and bookingId = "''booking-1''" and assetId = "''laptop''"
          and meth = "''blancco''" and performedBy = "''user-1''" and md = None and nts = None]]
    by (elim exE conjE) (simp add: ev)
  have b: "mockBookings (snd (createSanitisationRecordMock env0 ?st1
          ''booking-1'' ''monitor'' ''blancco'' ''user-1'' None None))
       = [ex_collected_booking\<lparr>b_status := Sanitised, b_sanitisedAt := Some (now_iso env0)\<rparr>]
     \<and> mockJobs (snd (createSanitisationRecordMock env0 ?st1
          ''booking-1'' ''monitor'' ''blancco'' ''user-1'' None None))
       = [ex_job\<lparr>j_status := J_sanitised\<rparr>]"
    using conjunct1 [OF t [where st = ?st1 and bookingId = "''booking-1''" and assetId = "''monitor''"
          and meth = "''blancco''" and performedBy = "''user-1''" and md = None and nts = None]]
    by (elim exE conjE) (simp add: ev)
  have c: "mockBookings (snd (createGradingRecordMock env0 ?st2
          ''booking-1'' ''monitor'' ''monitor'' ''B'' ''user-1'' None None))
       = [ex_collected_booking\<lparr>b_status := Graded, b_gradedAt := Some (now_iso env0)\<rparr>]
     \<and> mockJobs (snd (createGradingRecordMock env0 ?st2
          ''booking-1'' ''monitor'' ''monitor'' ''B'' ''user-1'' None None))
       = [ex_job\<lparr>j_status := J_graded\<rparr>]"
    using conjunct2 [OF t [where st = ?st2 and bookingId = "''booking-1''" and assetId = "''monitor''"
          and assetCategory = "''monitor''" and grade = "''B''" and gradedBy = "''user-1''"
          and cond = None and nts = None]]
    by (elim exE conjE) (simp add: ev)
  show ?thesis using sim_s sim_g a b c by blast
qed

subsection \<open>Driver assignment\<close>

lemma job_asset_categories:
  "map (a_category \<circ> job_asset jobId) (enumerate n xs) = map categoryId xs"
  by (induction xs arbitrary: n) (simp_all add: job_asset_def)

lemma job_asset_quantities:
  "map (a_quantity \<circ> job_asset jobId) (enumerate n xs) = map quantity xs"
  by (induction xs arbitrary: n) (simp_all add: job_asset_def)

lemma ex_store_simps:
  "mockBookings (ex_store b) = [b]" "mockJobs (ex_store b) = []"
  "mockCommissions (ex_store b) = []" "mockInvoices (ex_store b) = []"
  by (simp_all add: ex_store_def)

lemma ex_booking_simps:
  "b_id ex_booking = ''booking-1''" "b_status ex_booking = Created" "b_jobId ex_booking = None"
  "b_resellerId ex_booking = Some ''r1''" "b_resellerName ex_booking = Some ''Reseller One''"
  "b_estimatedBuyback ex_booking = 500"
  "map quantity (b_assets ex_booking) = [2, 3]"
  by (simp_all add: ex_booking_def)

text \<open>
  Claim C6. \<open>AssignDriver\<close> fails with NotFound when no booking has the identifier and
  with a ValidationError when the booking is in any status but \<open>created\<close>, leaving the
  store as it was. On a booking in \<open>created\<close> it succeeds: the booking in the store is
  \<open>scheduled\<close> and carries the driver's identifier and name, the actor and the time. If
  the booking had no job, one job is appended, in \<open>routed\<close>, with the categories and
  quantities of the booking's line items and its CO2e, buyback and charity values, and
  booking and job refer to each other; if it had one, the jobs and the link stay.
\<close>

theorem assignDriver_effect:
  assumes sim: "\<not> shouldSimulateError e ''booking''"
  shows
    "(List.find (has_id bookingId) (mockBookings st) = None \<longrightarrow>
        assignDriverMock e st bookingId driverId actor =
          (Inl (ApiError NOT_FOUND (''Booking with ID '' @ quoted bookingId @ '' was not found.'') 404
                  [(''bookingId'', bookingId)]), st))
     \<and> (\<forall>b. List.find (has_id bookingId) (mockBookings st) = Some b \<and> b_status b \<noteq> Created \<longrightarrow>
          assignDriverMock e st bookingId driverId actor =
            (Inl (ApiError VALIDATION_ERROR
                    (''Cannot assign driver to booking in '' @ quoted (booking_status_name (b_status b))
                       @ '' status. Only '' @ quoted ''created'' @ '' bookings can be assigned.'')
                    400
                    [(''bookingId'', bookingId), (''currentStatus'', booking_status_name (b_status b))]),
             st))
     \<and> (\<forall>b. List.find (has_id bookingId) (mockBookings st) = Some b \<and> b_status b = Created \<longrightarrow>
          (\<exists>b'. fst (assignDriverMock e st bookingId driverId actor) = Inr b'
             \<and> List.find (has_id bookingId)
                  (mockBookings (snd (assignDriverMock e st bookingId driverId actor))) = Some b'
             \<and> b_status b' = Scheduled
             \<and> b_driverId b' = Some driverId
             \<and> b_driverName b' = Some (d_name (lookup_driver (mockJobs st) driverId))
             \<and> b_scheduledBy b' = Some actor
             \<and> b_scheduledAt b' = Some (now_iso e)
             \<and> (if truthy (b_jobId b)
                 then mockJobs (snd (assignDriverMock e st bookingId driverId actor)) = mockJobs st
                      \<and> b_jobId b' = b_jobId b
                 else (\<exists>j. mockJobs (snd (assignDriverMock e st bookingId driverId actor)) = mockJobs st @ [j]
                         \<and> j_status j = J_routed
                         \<and> b_jobId b' = Some (j_id j)
                         \<and> j_bookingId j = Some (b_id b')
                         \<and> map a_category (j_assets j) = map categoryId (b_assets b)
                         \<and> map a_quantity (j_assets j) = map quantity (b_assets b)
                         \<and> j_co2eSaved j = b_estimatedCO2e b
                         \<and> j_buybackValue j = b_estimatedBuyback b
                         \<and> j_charityPercent j = b_charityPercent b))))"
proof (intro conjI impI allI)
  assume "List.find (has_id bookingId) (mockBookings st) = None"
  then show "assignDriverMock e st bookingId driverId actor =
          (Inl (ApiError NOT_FOUND (''Booking with ID '' @ quoted bookingId @ '' was not found.'') 404
                  [(''bookingId'', bookingId)]), st)"
    using sim by (simp add: assignDriverMock_def booking_not_found_def)
next
  fix b
  assume "List.find (has_id bookingId) (mockBookings st) = Some b \<and> b_status b \<noteq> Created"
  then show "assignDriverMock e st bookingId driverId actor =
            (Inl (ApiError VALIDATION_ERROR
                    (''Cannot assign driver to booking in '' @ quoted (booking_status_name (b_status b))
                       @ '' status. Only '' @ quoted ''created'' @ '' bookings can be assigned.'')
                    400
                    [(''bookingId'', bookingId), (''currentStatus'', booking_status_name (b_status b))]),
             st)"
    using sim by (simp add: assignDriverMock_def assign_status_error_def)
next
  fix b
  assume h: "List.find (has_id bookingId) (mockBookings st) = Some b \<and> b_status b = Created"
  then have found: "List.find (has_id bookingId) (mockBookings st) = Some b"
    and cr: "b_status b = Created" by simp_all
  let ?d = "lookup_driver (mockJobs st) driverId"
  let ?b1 = "b\<lparr>b_status := Scheduled, b_driverId := Some driverId, b_driverName := Some (d_name ?d),
                b_scheduledBy := Some actor, b_scheduledAt := Some (now_iso e)\<rparr>"
  let ?b2 = "?b1\<lparr>b_jobId := Some (new_job_id e)\<rparr>"
  have id1: "has_id bookingId ?b1" and id2: "has_id bookingId ?b2"
    using find_has_id [OF found] by (simp_all add: has_id_def)
  show "\<exists>b'. fst (assignDriverMock e st bookingId driverId actor) = Inr b'
             \<and> List.find (has_id bookingId)
                  (mockBookings (snd (assignDriverMock e st bookingId driverId actor))) = Some b'
             \<and> b_status b' = Scheduled
             \<and> b_driverId b' = Some driverId
             \<and> b_driverName b' = Some (d_name (lookup_driver (mockJobs st) driverId))
             \<and> b_scheduledBy b' = Some actor
             \<and> b_scheduledAt b' = Some (now_iso e)
             \<and> (if truthy (b_jobId b)
                 then mockJobs (snd (assignDriverMock e st bookingId driverId actor)) = mockJobs st
                      \<and> b_jobId b' = b_jobId b
                 else (\<exists>j. mockJobs (snd (assignDriverMock e st bookingId driverId actor)) = mockJobs st @ [j]
                         \<and> j_status j = J_routed
                         \<and> b_jobId b' = Some (j_id j)
                         \<and> j_bookingId j = Some (b_id b')
                         \<and> map a_category (j_assets j) = map categoryId (b_assets b)
                         \<and> map a_quantity (j_assets j) = map quantity (b_assets b)
                         \<and> j_co2eSaved j = b_estimatedCO2e b
                         \<and> j_buybackValue j = b_estimatedBuyback b
                         \<and> j_charityPercent j = b_charityPercent b))"
  proof (cases "truthy (b_jobId b)")
    case True
    have r: "assignDriverMock e st bookingId driverId actor =
        (Inr ?b1, st\<lparr>mockBookings := update_found (has_id bookingId) (\<lambda>_. ?b1) (mockBookings st)\<rparr>)"
      using sim found cr True by (simp add: assignDriverMock_def Let_def)
    show ?thesis
      apply (rule exI [of _ ?b1])
      using True find_update_found [OF found id1]
      by (simp add: r)
  next
    case False
    have r: "assignDriverMock e st bookingId driverId actor =
        (Inr ?b2, st\<lparr>mockBookings := update_found (has_id bookingId) (\<lambda>_. ?b2) (mockBookings st),
                      mockJobs := mockJobs st @ [new_job e ?b1 ?d]\<rparr>)"
      using sim found cr False by (simp add: assignDriverMock_def Let_def)
    have j: "j_status (new_job e ?b1 ?d) = J_routed \<and> j_id (new_job e ?b1 ?d) = new_job_id e
        \<and> j_bookingId (new_job e ?b1 ?d) = Some (b_id b)
        \<and> map a_category (j_assets (new_job e ?b1 ?d)) = map categoryId (b_assets b)
        \<and> map a_quantity (j_assets (new_job e ?b1 ?d)) = map quantity (b_assets b)
        \<and> j_co2eSaved (new_job e ?b1 ?d) = b_estimatedCO2e b
        \<and> j_buybackValue (new_job e ?b1 ?d) = b_estimatedBuyback b
        \<and> j_charityPercent (new_job e ?b1 ?d) = b_charityPercent b"
      by (simp add: new_job_def job_asset_categories job_asset_quantities)
    show ?thesis
      apply (rule exI [of _ ?b2])
      using False find_update_found [OF found id2] j
      by (simp add: r)
  qed
qed


text \<open>
  Witness for C6: an unknown identifier gives NotFound, a scheduled booking gives the
  ValidationError, and the booking in \<open>created\<close> without a job is scheduled and gets one
  job in \<open>routed\<close>, linked both ways.
\<close>

theorem assignDriver_effect_witness:
  "\<not> shouldSimulateError env0 ''booking''
   \<and> errType (projl (fst (assignDriverMock env0 (ex_store ex_booking) ''booking-9'' ''driver-1'' ''admin-1'')))
       = NOT_FOUND
   \<and> isl (fst (assignDriverMock env0 (ex_store ex_booking) ''booking-9'' ''driver-1'' ''admin-1''))
   \<and> assignDriverMock env0 (ex_store (ex_booking\<lparr>b_status := Scheduled\<rparr>)) ''booking-1'' ''driver-1'' ''admin-1''
       = (Inl (ApiError VALIDATION_ERROR
                 (''Cannot assign driver to booking in '' @ quoted ''scheduled''
                    @ '' status. Only '' @ quoted ''created'' @ '' bookings can be assigned.'')
                 400 [(''bookingId'', ''booking-1''), (''currentStatus'', ''scheduled'')]),
          ex_store (ex_booking\<lparr>b_status := Scheduled\<rparr>))
   \<and> (\<exists>b'. fst (assignDriverMock env0 (ex_store ex_booking) ''booking-1'' ''driver-1'' ''admin-1'') = Inr b'
          \<and> b_status b' = Scheduled
          \<and> b_driverId b' = Some ''driver-1''
          \<and> (\<exists>j. mockJobs (snd (assignDriverMock env0 (ex_store ex_booking) ''booking-1'' ''driver-1'' ''admin-1'')) = [j]
                 \<and> j_status j = J_routed
                 \<and> b_jobId b' = Some (j_id j)
                 \<and> j_bookingId j = Some (b_id b')))"
proof -
  have sim: "\<not> shouldSimulateError env0 ''booking''"
    by (rule env0_no_simulation)
  note t = assignDriver_effect [OF sim]
  have nf: "List.find (has_id ''booking-9'') (mockBookings (ex_store ex_booking)) = None"
    by (simp add: ex_store_simps has_id_def ex_booking_simps)
  have a: "assignDriverMock env0 (ex_store ex_booking) ''booking-9'' ''driver-1'' ''admin-1'' =
          (Inl (ApiError NOT_FOUND (''Booking with ID '' @ quoted ''booking-9'' @ '' was not found.'') 404
                  [(''bookingId'', ''booking-9'')]), ex_store ex_booking)"
    using conjunct1 [OF t [of "''booking-9''" "ex_store ex_booking"]] nf by blast
  have f2: "List.find (has_id ''booking-1'') (mockBookings (ex_store (ex_booking\<lparr>b_status := Scheduled\<rparr>)))
      = Some (ex_booking\<lparr>b_status := Scheduled\<rparr>)
      \<and> b_status (ex_booking\<lparr>b_status := Scheduled\<rparr>) \<noteq> Created"
    by (simp add: ex_store_simps has_id_def ex_booking_simps)
  have b: "assignDriverMock env0 (ex_store (ex_booking\<lparr>b_status := Scheduled\<rparr>)) ''booking-1'' ''driver-1'' ''admin-1''
       = (Inl (ApiError VALIDATION_ERROR
                 (''Cannot assign driver to booking in '' @ quoted ''scheduled''
                    @ '' status. Only '' @ quoted ''created'' @ '' bookings can be assigned.'')
                 400 [(''bookingId'', ''booking-1''), (''currentStatus'', ''scheduled'')]),
          ex_store (ex_booking\<lparr>b_status := Scheduled\<rparr>))"
    using conjunct1 [OF conjunct2 [OF t [of "''booking-1''" "ex_store (ex_booking\<lparr>b_status := Scheduled\<rparr>)"]]]
      f2 by fastforce
  have f3: "List.find (has_id ''booking-1'') (mockBookings (ex_store ex_booking)) = Some ex_booking
      \<and> b_status ex_booking = Created"
    by (simp add: ex_store_simps has_id_def ex_booking_simps)
  have c: "\<exists>b'. fst (assignDriverMock env0 (ex_store ex_booking) ''booking-1'' ''driver-1'' ''admin-1'') = Inr b'
          \<and> b_status b' = Scheduled
          \<and> b_driverId b' = Some ''driver-1''
          \<and> (\<exists>j. mockJobs (snd (assignDriverMock env0 (ex_store ex_booking) ''booking-1'' ''driver-1'' ''admin-1'')) = [j]
                 \<and> j_status j = J_routed
                 \<and> b_jobId b' = Some (j_id j)
                 \<and> j_bookingId j = Some (b_id b'))"
    using conjunct2 [OF conjunct2 [OF t [of "''booking-1''" "ex_store ex_booking" "''driver-1''" "''admin-1''"]]]
      f3 by (fastforce simp: ex_store_simps ex_booking_simps)
  show ?thesis using sim a b c by simp
qed


subsection \<open>Double-precision arithmetic\<close>

lemma bit_length_bounds:
  "0 < n \<Longrightarrow> 2 ^ (bit_length n - 1) \<le> n \<and> n < 2 ^ bit_length n"
proof (induction n rule: bit_length.induct)
  case (1 n)
  show ?case
  proof (cases "n div 2 = 0")
    case True
    with "1.prems" have "n = 1" by (simp add: div_eq_0_iff) 
    then show ?thesis by (simp add: bit_length.simps)
  next
    case False
    then have pos: "0 < n div 2" by simp
    from "1.IH" [OF _ pos] "1.prems"
    have ih: "2 ^ (bit_length (n div 2) - 1) \<le> n div 2" "n div 2 < 2 ^ bit_length (n div 2)"
      by simp_all
    have bl: "bit_length n = Suc (bit_length (n div 2))"
      using "1.prems" by (subst bit_length.simps) simp
    have blpos: "0 < bit_length (n div 2)"
      using pos by (subst bit_length.simps) simp
    then obtain k where k: "bit_length (n div 2) = Suc k" by (cases "bit_length (n div 2)") auto
    have "2 * 2 ^ k \<le> n" using ih(1) k by simp
    moreover have "n < 2 * 2 ^ Suc k" using ih(2) k by simp
    ultimately show ?thesis by (simp add: bl k)
  qed
qed

lemma bit_length_pos: "0 < n \<Longrightarrow> 0 < bit_length n"
  by (subst bit_length.simps) simp

lemma bit_length_lower: "0 < n \<Longrightarrow> (2::rat) ^ (bit_length n - 1) \<le> of_nat n"
proof -
  assume "0 < n"
  then have "(2::nat) ^ (bit_length n - 1) \<le> n" using bit_length_bounds by simp
  then have "(of_nat (2 ^ (bit_length n - 1)) :: rat) \<le> of_nat n"
    by (simp only: of_nat_le_iff)
  then show ?thesis by simp
qed

lemma bit_length_upper: "0 < n \<Longrightarrow> (of_nat n :: rat) + 1 \<le> 2 ^ bit_length n"
proof -
  assume "0 < n"
  then have "n < 2 ^ bit_length n" using bit_length_bounds by simp
  then have "Suc n \<le> 2 ^ bit_length n" by simp
  then have "(of_nat (Suc n) :: rat) \<le> of_nat (2 ^ bit_length n)"
    by (simp only: of_nat_le_iff)
  then show ?thesis by simp
qed

lemma exponent_of_bounds:
  assumes "x \<noteq> 0"
  shows "2 powi exponent_of x \<le> \<bar>x\<bar>" and "\<bar>x\<bar> < 2 powi (exponent_of x + 1)"
proof -
  have ax: "0 < \<bar>x\<bar>" using assms by simp
  show "2 powi exponent_of x \<le> \<bar>x\<bar>"
  proof (cases "1 \<le> \<bar>x\<bar>")
    case True
    define n where "n = nat \<lfloor>\<bar>x\<bar>\<rfloor>"
    have n: "0 < n" using True by (simp add: n_def)
    have nx: "(of_nat n :: rat) \<le> \<bar>x\<bar>" using True by (simp add: n_def)
    have e: "exponent_of x = int (bit_length n) - 1"
      using True by (simp add: exponent_of_def n_def)
    have "(2::rat) ^ (bit_length n - 1) \<le> \<bar>x\<bar>"
      using bit_length_lower [OF n] nx by linarith
    moreover have "(2::rat) powi (int (bit_length n) - 1) = 2 ^ (bit_length n - 1)"
      using bit_length_pos [OF n] by (simp add: power_int_def nat_diff_distrib)
    ultimately show ?thesis by (simp only: e)
  next
    case False
    define m where "m = nat (\<lceil>1 / \<bar>x\<bar>\<rceil> - 1)"
    have y1: "1 < 1 / \<bar>x\<bar>" using False ax by simp
    then have c2: "2 \<le> \<lceil>1 / \<bar>x\<bar>\<rceil>" by (simp add: le_ceiling_iff)
    have m: "0 < m" unfolding m_def using c2 by linarith
    have "0 \<le> \<lceil>1 / \<bar>x\<bar>\<rceil> - 1" using c2 by linarith
    then have "(of_nat m :: rat) = of_int (\<lceil>1 / \<bar>x\<bar>\<rceil> - 1)"
      unfolding m_def by (rule of_nat_nat)
    then have mc: "(of_nat m :: rat) = of_int \<lceil>1 / \<bar>x\<bar>\<rceil> - 1" by simp
    have "1 / \<bar>x\<bar> \<le> of_int \<lceil>1 / \<bar>x\<bar>\<rceil>" by simp
    then have "1 / \<bar>x\<bar> \<le> 2 ^ bit_length m"
      using bit_length_upper [OF m] mc by linarith
    then have "1 / 2 ^ bit_length m \<le> \<bar>x\<bar>" using ax
      by (simp add: field_simps)
    moreover have e: "exponent_of x = - int (bit_length m)"
      using False by (simp add: exponent_of_def m_def)
    moreover have "(2::rat) powi (- int (bit_length m)) = 1 / 2 ^ bit_length m"
      by (simp add: power_int_minus_divide)
    ultimately show ?thesis by simp
  qed
  show "\<bar>x\<bar> < 2 powi (exponent_of x + 1)"
  proof (cases "1 \<le> \<bar>x\<bar>")
    case True
    define n where "n = nat \<lfloor>\<bar>x\<bar>\<rfloor>"
    have n: "0 < n" using True by (simp add: n_def)
    have nx: "\<bar>x\<bar> < of_nat n + 1" using True by (simp add: n_def) linarith
    have e: "exponent_of x = int (bit_length n) - 1"
      using True by (simp add: exponent_of_def n_def)
    have "\<bar>x\<bar> < 2 ^ bit_length n"
      using bit_length_upper [OF n] nx by linarith
    then show ?thesis by (simp add: e)
  next
    case False
    define m where "m = nat (\<lceil>1 / \<bar>x\<bar>\<rceil> - 1)"
    have y1: "1 < 1 / \<bar>x\<bar>" using False ax by simp
    then have c2: "2 \<le> \<lceil>1 / \<bar>x\<bar>\<rceil>" by (simp add: le_ceiling_iff)
    have m: "0 < m" unfolding m_def using c2 by linarith
    have "0 \<le> \<lceil>1 / \<bar>x\<bar>\<rceil> - 1" using c2 by linarith
    then have "(of_nat m :: rat) = of_int (\<lceil>1 / \<bar>x\<bar>\<rceil> - 1)"
      unfolding m_def by (rule of_nat_nat)
    then have mc: "(of_nat m :: rat) = of_int \<lceil>1 / \<bar>x\<bar>\<rceil> - 1" by simp
    have "of_int \<lceil>1 / \<bar>x\<bar>\<rceil> - 1 < 1 / \<bar>x\<bar>" by linarith
    then have "(2::rat) ^ (bit_length m - 1) < 1 / \<bar>x\<bar>"
      using bit_length_lower [OF m] mc by linarith
    then have "\<bar>x\<bar> < 1 / 2 ^ (bit_length m - 1)" using ax
      by (simp add: field_simps)
    moreover have e: "exponent_of x = - int (bit_length m)"
      using False by (simp add: exponent_of_def m_def)
    moreover have "(2::rat) powi (- int (bit_length m) + 1) = 1 / 2 ^ (bit_length m - 1)"
    proof -
      have h: "- int (bit_length m) + 1 = - int (bit_length m - 1)"
        using bit_length_pos [OF m] by simp
      show ?thesis unfolding h by (simp only: power_int_minus_divide power_int_of_nat)
    qed
    ultimately show ?thesis by simp
  qed
qed


lemma exponent_of_unique:
  assumes "2 powi E \<le> \<bar>x\<bar>" and "\<bar>x\<bar> < 2 powi (E + 1)"
  shows "exponent_of x = E"
proof -
  have "0 < (2::rat) powi E" by (rule zero_less_power_int) simp
  with assms(1) have "0 < \<bar>x\<bar>" by linarith
  then have x: "x \<noteq> 0" by simp
  note b = exponent_of_bounds [OF x]
  have "\<not> exponent_of x < E"
  proof
    assume "exponent_of x < E"
    then have "exponent_of x + 1 \<le> E" by simp
    then have "(2::rat) powi (exponent_of x + 1) \<le> 2 powi E"
      by (intro power_int_increasing) simp_all
    with assms(1) b(2) show False by linarith
  qed
  moreover have "\<not> E < exponent_of x"
  proof
    assume "E < exponent_of x"
    then have "E + 1 \<le> exponent_of x" by simp
    then have "(2::rat) powi (E + 1) \<le> 2 powi exponent_of x"
      by (intro power_int_increasing) simp_all
    with assms(2) b(1) show False by linarith
  qed
  ultimately show ?thesis by linarith
qed

lemma round_half_even_of_int [simp]: "round_half_even (of_int n) = n"
  by (simp add: round_half_even_def)

lemma round_half_even_ge: "of_int M \<le> y \<Longrightarrow> M \<le> round_half_even y"
proof -
  assume "of_int M \<le> y"
  then have "M \<le> \<lfloor>y\<rfloor>" by (simp add: le_floor_iff)
  then show ?thesis by (simp add: round_half_even_def Let_def)
qed

lemma round_half_even_less: "y < of_int N - 1 / 2 \<Longrightarrow> round_half_even y < N"
proof -
  assume a: "y < of_int N - 1 / 2"
  have f: "of_int \<lfloor>y\<rfloor> \<le> y" by simp
  with a have "of_int \<lfloor>y\<rfloor> < (of_int N :: rat)" by linarith
  then have fl: "\<lfloor>y\<rfloor> < N" by simp
  show ?thesis
  proof (cases "\<lfloor>y\<rfloor> + 1 < N")
    case True
    then show ?thesis by (simp add: round_half_even_def Let_def)
  next
    case False
    with fl have "\<lfloor>y\<rfloor> = N - 1" by linarith
    then have "y - of_int \<lfloor>y\<rfloor> < 1 / 2" using a by simp
    then show ?thesis using fl by (simp add: round_half_even_def Let_def)
  qed
qed

lemma to_double_eq:
  assumes "2 powi E \<le> \<bar>x\<bar>" and "\<bar>x\<bar> < 2 powi (E + 1)" and "- 1022 \<le> E"
    and "\<bar>of_int (round_half_even (x / 2 powi (E - 52))) * 2 powi (E - 52)\<bar> < (2::rat) powi 1024"
  shows "to_double x = Fin (of_int (round_half_even (x / 2 powi (E - 52))) * 2 powi (E - 52))"
proof -
  have "0 < (2::rat) powi E" by (rule zero_less_power_int) simp
  with assms(1) have "0 < \<bar>x\<bar>" by linarith
  then have x: "x \<noteq> 0" by simp
  have e: "max (exponent_of x) (- 1022) = E"
    using exponent_of_unique [OF assms(1,2)] assms(3) by simp
  show ?thesis
    using x assms(4) unfolding to_double_def Let_def e by simp
qed

lemma to_double_of_int:
  assumes "\<bar>n\<bar> \<le> 2 ^ 53"
  shows "to_double (of_int n) = Fin (of_int n)"
proof (cases "n = 0")
  case True
  then show ?thesis by (simp add: to_double_def)
next
  case False
  define x :: rat where "x = of_int n"
  define E where "E = exponent_of x"
  have x0: "x \<noteq> 0" using False by (simp add: x_def)
  have x1: "1 \<le> \<bar>x\<bar>" using False unfolding x_def by (simp flip: of_int_abs) 
  have xu: "\<bar>x\<bar> \<le> 2 ^ 53"
  proof -
    have "(of_int \<bar>n\<bar> :: rat) \<le> of_int (2 ^ 53)" using assms by (simp only: of_int_le_iff)
    then show ?thesis by (simp add: x_def)
  qed
  note b = exponent_of_bounds [OF x0, folded E_def]
  have E0: "0 \<le> E"
  proof (rule ccontr)
    assume "\<not> 0 \<le> E"
    then have "E + 1 \<le> 0" by simp
    then have "(2::rat) powi (E + 1) \<le> 2 powi 0" by (intro power_int_increasing) simp_all
    with b(2) x1 show False by simp
  qed
  have E53: "E \<le> 53"
  proof (rule ccontr)
    assume "\<not> E \<le> 53"
    then have "54 \<le> E" by simp
    then have "(2::rat) powi 54 \<le> 2 powi E" by (intro power_int_increasing) simp_all
    with b(1) xu show False by simp
  qed
  have int: "\<exists>k. x / 2 powi (E - 52) = of_int k"
  proof (cases "E \<le> 52")
    case True
    then have "(2::rat) powi (E - 52) = 1 / 2 ^ nat (52 - E)"
      using power_int_minus_divide [of "2::rat" "52 - E"] by (simp add: power_int_def)
    then have "x / 2 powi (E - 52) = of_int (n * 2 ^ nat (52 - E))"
      by (simp add: x_def)
    then show ?thesis by blast
  next
    case False
    with E53 have E: "E = 53" by simp
    have "2 ^ 53 \<le> \<bar>x\<bar>" using b(1) by (simp add: E)
    with xu have ax: "\<bar>x\<bar> = 2 ^ 53" by simp
    have "\<bar>n\<bar> = 2 ^ 53"
    proof -
      from ax have "(of_int \<bar>n\<bar> :: rat) = of_int (2 ^ 53)" by (simp add: x_def)
      then show ?thesis by (simp only: of_int_eq_iff)
    qed
    then have "n = 2 ^ 53 \<or> n = - (2 ^ 53)" by linarith
    then have "x / 2 powi (E - 52) = of_int (2 ^ 52) \<or> x / 2 powi (E - 52) = of_int (- (2 ^ 52))"
      by (auto simp: E x_def)
    then show ?thesis by blast
  qed
  then obtain k where k: "x / 2 powi (E - 52) = of_int k" by blast
  have y: "of_int (round_half_even (x / 2 powi (E - 52))) * 2 powi (E - 52) = x"
  proof -
    have "of_int k * (2::rat) powi (E - 52) = x / 2 powi (E - 52) * 2 powi (E - 52)"
      by (simp only: k)
    also have "\<dots> = x" by simp
    finally show ?thesis by (simp add: k)
  qed
  have "\<bar>x\<bar> < 2 powi 1024"
  proof -
    have "(2::rat) ^ 53 < 2 ^ 1024" by (rule power_strict_increasing) simp_all
    with xu show ?thesis by simp
  qed
  with y have "to_double x = Fin x"
    using to_double_eq [of E x] b E0 by simp
  then show ?thesis by (simp add: x_def)
qed

lemma round_half_even_nearest:
  assumes "of_int n - 1 / 2 < y" and "y < of_int n + 1 / 2"
  shows "round_half_even y = n"
proof -
  have "of_int (n - 1) \<le> y" using assms(1) by simp
  then have lo: "n - 1 \<le> \<lfloor>y\<rfloor>" by (simp only: le_floor_iff)
  have "y < of_int (n + 1)" using assms(2) by simp
  then have "\<lfloor>y\<rfloor> < n + 1" by (simp only: floor_less_iff)
  with lo consider "\<lfloor>y\<rfloor> = n" | "\<lfloor>y\<rfloor> = n - 1" by linarith
  then show ?thesis
  proof cases
    case 1
    then show ?thesis using assms(2) by (simp add: round_half_even_def)
  next
    case 2
    then show ?thesis using assms(1) by (simp add: round_half_even_def)
  qed
qed

lemma round_half_even_tie:
  assumes "y = of_int n + 1 / 2"
  shows "round_half_even y = (if even n then n else n + 1)"
proof -
  have "\<lfloor>y\<rfloor> = n" unfolding assms by (simp add: floor_unique)
  then show ?thesis by (simp add: round_half_even_def assms)
qed

text \<open>The quotient \<open>10 / 100\<close> in doubles: the double next to one tenth.\<close>

lemma ddiv_tenth: "ddiv (Fin 10) (Fin 100) = Fin (3602879701896397 / 2 ^ 55)"
proof -
  have "round_half_even (36028797018963968 / 5) = 7205759403792794"
    by (rule round_half_even_nearest) simp_all
  then have "to_double (10 / 100) = Fin (3602879701896397 / 2 ^ 55)"
    using to_double_eq [of "- 4" "10 / 100"] by simp
  then show ?thesis by simp
qed

text \<open>
  A buyback of \<open>15 - 2 powi (- 49)\<close>, the double before 15, times that double is
  \<open>1.5\<close> once rounded.
\<close>

lemma to_double_below_fifteen: "to_double (15 - 1 / 2 ^ 49) = Fin (15 - 1 / 2 ^ 49)"
  using to_double_eq [of 3 "15 - 1 / 2 ^ 49"] round_half_even_of_int [of 8444249301319679]
  by simp

lemma dmul_below_fifteen:
  "dmul (Fin (15 - 1 / 2 ^ 49)) (Fin (3602879701896397 / 2 ^ 55)) = Fin (3 / 2)"
proof -
  have "round_half_even (30423614405477503721891035296563 / 4503599627370496) = 6755399441055744"
    by (rule round_half_even_nearest) simp_all
  then have "to_double ((15 - 1 / 2 ^ 49) * (3602879701896397 / 2 ^ 55)) = Fin (3 / 2)"
    using to_double_eq [of 0 "(15 - 1 / 2 ^ 49) * (3602879701896397 / 2 ^ 55)"]
    by simp
  then show ?thesis by simp
qed

text \<open>Whole numbers up to \<open>2 ^ 53\<close> are doubles, and their sums are exact.\<close>

lemma to_double_numeral:
  "(numeral k :: int) \<le> 2 ^ 53 \<Longrightarrow> to_double (numeral k) = Fin (numeral k)"
  using to_double_of_int [of "numeral k"] by simp

lemma to_double_one: "to_double 1 = Fin 1"
  using to_double_of_int [of 1] by simp

lemma dadd_whole:
  "\<bar>a + b\<bar> \<le> 2 ^ 53 \<Longrightarrow> dadd (Fin (of_int a)) (Fin (of_int b)) = Fin (of_int (a + b))"
  using to_double_of_int [of "a + b"] by simp

text \<open>Above \<open>2 ^ 53\<close> the doubles are the even numbers.\<close>

lemma to_double_above_2_53:
  "to_double 9007199254740993 = Fin 9007199254740992"
  "to_double 9007199254740994 = Fin 9007199254740994"
proof -
  have "round_half_even (9007199254740993 / 2) = 4503599627370496"
    using round_half_even_tie [of "9007199254740993 / 2" 4503599627370496] by simp
  then show "to_double 9007199254740993 = Fin 9007199254740992"
    using to_double_eq [of 53 9007199254740993] by simp
  show "to_double 9007199254740994 = Fin 9007199254740994"
    using to_double_eq [of 53 9007199254740994] round_half_even_of_int [of 4503599627370497]
    by simp
qed

text \<open>
  For a whole number from 0 to \<open>2 ^ 50\<close>, rounding the product with the double next to
  one tenth gives the same integer as rounding the exact tenth.
\<close>

lemma tenth_of_whole_number:
  fixes n :: int
  assumes "0 \<le> n" and "n \<le> 2 ^ 50"
  shows "Math_round_double (to_double (of_int n * (3602879701896397 / 2 ^ 55)))
         = Fin (of_int (round (of_int n * 10 / 100 :: rat)))"
proof (cases "n = 0")
  case True
  then show ?thesis by (simp add: to_double_def round_def)
next
  case False
  with assms have n1: "1 \<le> n" by simp
  define x :: rat where "x = of_int n * (3602879701896397 / 2 ^ 55)"
  define k :: int where "k = \<lfloor>(of_int n :: rat) / 10 + 1 / 2\<rfloor>"
  define E where "E = exponent_of x"
  have nr1: "(1::rat) \<le> of_int n" using n1 by simp
  have nr2: "(of_int n :: rat) \<le> 2 ^ 50"
  proof -
    have "(of_int n :: rat) \<le> of_int (2 ^ 50)" using assms(2) by (simp only: of_int_le_iff)
    then show ?thesis by simp
  qed
  have xn: "x = of_int n / 10 + of_int n / 10 / 2 ^ 54" by (simp add: x_def)
  have xlo: "of_int n / 10 \<le> x" using nr1 by (simp add: xn)
  have xhi: "x \<le> of_int n / 10 + 1 / 160" using nr2 by (simp add: xn)
  have x10: "1 / 10 \<le> x" using xlo nr1 by simp
  have x47: "x < 2 ^ 47" using xhi nr2 by simp
  have xpos: "0 < x" using x10 by simp
  then have x0: "x \<noteq> 0" and ax: "\<bar>x\<bar> = x" by simp_all
  note b = exponent_of_bounds [OF x0, folded E_def, unfolded ax]
  have Elo: "- 4 \<le> E"
  proof (rule ccontr)
    assume "\<not> - 4 \<le> E"
    then have "E + 1 \<le> - 4" by simp
    then have "(2::rat) powi (E + 1) \<le> 2 powi (- 4)" by (intro power_int_increasing) simp_all
    with b(2) x10 show False by simp
  qed
  have Ehi: "E \<le> 46"
  proof (rule ccontr)
    assume "\<not> E \<le> 46"
    then have "47 \<le> E" by simp
    then have "(2::rat) powi 47 \<le> 2 powi E" by (intro power_int_increasing) simp_all
    with b(1) x47 show False by simp
  qed
  obtain j where j: "52 - E = int (Suc j)" and j5: "5 \<le> j"
  proof
    show "52 - E = int (Suc (nat (51 - E)))" using Ehi by simp
    show "5 \<le> nat (51 - E)" using Ehi by simp
  qed
  have q: "(2::rat) powi (E - 52) = 1 / 2 ^ Suc j"
  proof -
    have "E - 52 = - int (Suc j)" using j by simp
    then show ?thesis by (simp only: power_int_minus_divide power_int_of_nat)
  qed
  have p5: "(2::rat) ^ 5 \<le> 2 ^ j" using j5 by (intro power_increasing) simp_all
  then have half_q: "1 / (2::rat) ^ Suc (Suc j) \<le> 1 / 128"
    by (simp add: field_simps)
  have kfloor: "of_int k \<le> (of_int n :: rat) / 10 + 1 / 2" "(of_int n :: rat) / 10 + 1 / 2 < of_int k + 1"
    unfolding k_def by linarith+
  have "(of_int n :: rat) < of_int (10 * k + 5)" using kfloor(2) by simp
  then have "n < 10 * k + 5" by (simp only: of_int_less_iff)
  then have "n \<le> 10 * k + 4" by simp
  then have "(of_int n :: rat) \<le> of_int (10 * k + 4)" by (simp only: of_int_le_iff)
  then have nk: "(of_int n :: rat) / 10 \<le> of_int k + 2 / 5" by simp
  have k0: "0 \<le> k" unfolding k_def using nr1 by simp
  have k50: "(of_int k :: rat) \<le> 2 ^ 50" using kfloor(1) nr2 by simp
  define r where "r = round_half_even (x * 2 ^ Suc j)"
  define y :: rat where "y = of_int r / 2 ^ Suc j"
  have lo: "of_int k - 1 / 2 \<le> y"
  proof -
    have "of_int ((2 * k - 1) * 2 ^ j) = (of_int k - 1 / 2) * (2::rat) ^ Suc j"
      by (simp add: algebra_simps)
    also have "\<dots> \<le> x * 2 ^ Suc j"
      using kfloor(1) xlo by (intro mult_right_mono) simp_all
    finally have "(2 * k - 1) * 2 ^ j \<le> r" unfolding r_def by (rule round_half_even_ge)
    then have "(of_int ((2 * k - 1) * 2 ^ j) :: rat) \<le> of_int r" by (simp only: of_int_le_iff)
    then have "(of_int k - 1 / 2) * (2::rat) ^ Suc j \<le> of_int r"
      by (simp add: algebra_simps)
    then show ?thesis unfolding y_def by (simp add: field_simps)
  qed
  have hi: "y < of_int k + 1 / 2"
  proof -
    have "x + 1 / 2 ^ Suc (Suc j) < of_int k + 1 / 2"
      using xhi nk half_q by linarith
    then have "(x + 1 / 2 ^ Suc (Suc j)) * 2 ^ Suc j < (of_int k + 1 / 2) * 2 ^ Suc j"
      by (intro mult_strict_right_mono) simp_all
    then have "x * 2 ^ Suc j < of_int ((2 * k + 1) * 2 ^ j) - 1 / 2"
      by (simp add: algebra_simps)
    then have "r < (2 * k + 1) * 2 ^ j" unfolding r_def by (rule round_half_even_less)
    then have "(of_int r :: rat) < of_int ((2 * k + 1) * 2 ^ j)" by (simp only: of_int_less_iff)
    then have "of_int r < (of_int k + 1 / 2) * (2::rat) ^ Suc j"
      by (simp add: algebra_simps)
    then show ?thesis unfolding y_def by (simp add: field_simps)
  qed
  have ylim: "\<bar>y\<bar> < 2 powi 1024"
  proof -
    have "(2::rat) ^ 51 < 2 ^ 1024" by (rule power_strict_increasing) simp_all
    moreover have "\<bar>y\<bar> < 2 ^ 51" using lo hi k0 k50 by (simp add: abs_if)
    ultimately show ?thesis by simp
  qed
  have yq: "of_int (round_half_even (x / 2 powi (E - 52))) * 2 powi (E - 52) = y"
    unfolding q y_def r_def by simp
  have "to_double x = Fin y"
    using to_double_eq [of E x] b Elo ylim unfolding ax yq by simp
  moreover have "\<lfloor>y + 1 / 2\<rfloor> = k"
    using lo hi by (intro floor_unique) simp_all
  moreover have "round (of_int n * 10 / 100 :: rat) = k"
    by (simp add: round_def k_def)
  ultimately show ?thesis by (simp add: x_def)
qed

subsection \<open>Invoice and commission on completion\<close>






lemma completeBooking_graded:
  assumes sim: "\<not> shouldSimulateError e ''booking''"
    and found: "List.find (has_id bookingId) (mockBookings st) = Some b"
    and graded: "b_status b = Graded"
  shows "fst (completeBookingMock e st bookingId actor)
           = Inr (b\<lparr>b_status := Completed, b_completedAt := Some (now_iso e)\<rparr>)"
    and "mockCommissions (snd (completeBookingMock e st bookingId actor))
           = (if truthy (b_resellerId b) \<and> truthy (b_resellerName b)
              then mockCommissions st
                     @ [new_commission e (b\<lparr>b_status := Completed, b_completedAt := Some (now_iso e)\<rparr>)]
              else mockCommissions st)"
    and "mockInvoices (snd (completeBookingMock e st bookingId actor))
           = mockInvoices st
               @ [new_invoice e (mockInvoices st)
                    (b\<lparr>b_status := Completed, b_completedAt := Some (now_iso e)\<rparr>)]"
  using sim found graded by (simp_all add: completeBookingMock_def Let_def)




lemma ex_graded_booking_simps:
  "b_id ex_graded_booking = ''booking-1''" "b_status ex_graded_booking = Graded"
  "b_resellerId ex_graded_booking = Some ''r1''" "b_resellerName ex_graded_booking = Some ''Reseller One''"
  "b_estimatedBuyback ex_graded_booking = 500"
  "b_assets ex_graded_booking =
     [\<lparr>categoryId = ''laptop'', categoryName = ''Laptop'', quantity = 2\<rparr>,
      \<lparr>categoryId = ''monitor'', categoryName = ''Monitor'', quantity = 3\<rparr>]"
  by (simp_all add: ex_graded_booking_def ex_booking_def)





lemma commission_amount_double:
  "commission_amount buyback
     = Math_round_double (to_double (buyback * (3602879701896397 / 2 ^ 55)))"
  unfolding commission_amount_def commissionPercent_def
  by (simp only: of_int_numeral ddiv_tenth dmul.simps)

lemma commission_amount_whole:
  assumes "0 \<le> n" and "n \<le> 2 ^ 50"
  shows "commission_amount (of_int n) = Fin (of_int (round (of_int n * 10 / 100 :: rat)))"
  unfolding commission_amount_double using assms by (rule tenth_of_whole_number)

text \<open>
  Claim C8, as amended. Completing a graded booking appends exactly one commission if the
  booking has both a reseller identifier and a reseller name, and none otherwise. The
  commission is pending, and its period is the first seven characters, year and month,
  of its creation time. Its amount is \<open>Math.round\<close> of the double-precision product of
  the estimated buyback and the double next to one tenth, which is
  \<open>3602879701896397 / 2 ^ 55\<close>; for an estimated buyback that is a whole number from 0
  to \<open>2 ^ 50\<close> this is \<open>round(estimatedBuyback \<times> 10 / 100)\<close>.
\<close>

theorem completion_creates_commission:
  assumes sim: "\<not> shouldSimulateError e ''booking''"
    and found: "List.find (has_id bookingId) (mockBookings st) = Some b"
    and graded: "b_status b = Graded"
  shows
    "fst (completeBookingMock e st bookingId actor)
       = Inr (b\<lparr>b_status := Completed, b_completedAt := Some (now_iso e)\<rparr>)
     \<and> (if truthy (b_resellerId b) \<and> truthy (b_resellerName b)
         then \<exists>c. mockCommissions (snd (completeBookingMock e st bookingId actor)) = mockCommissions st @ [c]
                \<and> cm_commissionAmount c
                    = Math_round_double (to_double (b_estimatedBuyback b * (3602879701896397 / 2 ^ 55)))
                \<and> (\<forall>n. 0 \<le> n \<and> n \<le> 2 ^ 50 \<and> b_estimatedBuyback b = of_int n \<longrightarrow>
                      cm_commissionAmount c = Fin (of_int (round (b_estimatedBuyback b * 10 / 100))))
                \<and> cm_status c = Pending
                \<and> cm_createdAt c = now_iso e
                \<and> cm_period c = take 7 (cm_createdAt c)
                \<and> cm_bookingId c = b_id b
                \<and> Some (cm_resellerId c) = b_resellerId b
                \<and> Some (cm_resellerName c) = b_resellerName b
         else mockCommissions (snd (completeBookingMock e st bookingId actor)) = mockCommissions st)"
proof (intro conjI)
  show "fst (completeBookingMock e st bookingId actor)
       = Inr (b\<lparr>b_status := Completed, b_completedAt := Some (now_iso e)\<rparr>)"
    by (rule completeBooking_graded(1) [OF sim found graded])
  let ?c = "new_commission e (b\<lparr>b_status := Completed, b_completedAt := Some (now_iso e)\<rparr>)"
  have a: "cm_commissionAmount ?c = commission_amount (b_estimatedBuyback b)"
    by (simp add: new_commission_def)
  have a1: "cm_commissionAmount ?c
      = Math_round_double (to_double (b_estimatedBuyback b * (3602879701896397 / 2 ^ 55)))"
    unfolding a by (rule commission_amount_double)
  have a2: "\<forall>n. 0 \<le> n \<and> n \<le> 2 ^ 50 \<and> b_estimatedBuyback b = of_int n \<longrightarrow>
      cm_commissionAmount ?c = Fin (of_int (round (b_estimatedBuyback b * 10 / 100)))"
  proof (intro allI impI)
    fix n :: int
    assume n: "0 \<le> n \<and> n \<le> 2 ^ 50 \<and> b_estimatedBuyback b = of_int n"
    then have "commission_amount (of_int n) = Fin (of_int (round (of_int n * 10 / 100 :: rat)))"
      by (intro commission_amount_whole) simp_all
    with n show "cm_commissionAmount ?c = Fin (of_int (round (b_estimatedBuyback b * 10 / 100)))"
      unfolding a by simp
  qed
  have c: "cm_status ?c = Pending \<and> cm_createdAt ?c = now_iso e \<and> cm_period ?c = take 7 (cm_createdAt ?c)
      \<and> cm_bookingId ?c = b_id b"
    by (simp add: new_commission_def)
  have r: "truthy (b_resellerId b) \<and> truthy (b_resellerName b) \<Longrightarrow>
      Some (cm_resellerId ?c) = b_resellerId b \<and> Some (cm_resellerName ?c) = b_resellerName b"
    by (cases "b_resellerId b"; cases "b_resellerName b") (simp_all add: new_commission_def)
  show "if truthy (b_resellerId b) \<and> truthy (b_resellerName b)
         then \<exists>c. mockCommissions (snd (completeBookingMock e st bookingId actor)) = mockCommissions st @ [c]
                \<and> cm_commissionAmount c
                    = Math_round_double (to_double (b_estimatedBuyback b * (3602879701896397 / 2 ^ 55)))
                \<and> (\<forall>n. 0 \<le> n \<and> n \<le> 2 ^ 50 \<and> b_estimatedBuyback b = of_int n \<longrightarrow>
                      cm_commissionAmount c = Fin (of_int (round (b_estimatedBuyback b * 10 / 100))))
                \<and> cm_status c = Pending
                \<and> cm_createdAt c = now_iso e
                \<and> cm_period c = take 7 (cm_createdAt c)
                \<and> cm_bookingId c = b_id b
                \<and> Some (cm_resellerId c) = b_resellerId b
                \<and> Some (cm_resellerName c) = b_resellerName b
         else mockCommissions (snd (completeBookingMock e st bookingId actor)) = mockCommissions st"
  proof (cases "truthy (b_resellerId b) \<and> truthy (b_resellerName b)")
    case True
    have "mockCommissions (snd (completeBookingMock e st bookingId actor)) = mockCommissions st @ [?c]"
      using completeBooking_graded(2) [OF sim found graded] True by simp
    with a1 a2 c r [OF True] show ?thesis
      unfolding if_P [OF True] by (intro exI [of _ ?c]) blast
  next
    case False
    have "mockCommissions (snd (completeBookingMock e st bookingId actor)) = mockCommissions st"
      by (simp only: completeBooking_graded(2) [OF sim found graded] if_not_P [OF False])
    then show ?thesis
      unfolding if_not_P [OF False] .
  qed
qed


text \<open>
  Witness for C8: an estimated buyback of 1000 and the reseller \<open>r1\<close> give one pending
  commission of 100 for the period 2025-01; the booking without a reseller gives none.
\<close>

theorem completion_creates_commission_witness:
  "\<not> shouldSimulateError env0 ''booking''
   \<and> (\<exists>c. mockCommissions (snd (completeBookingMock env0
                 (ex_store (ex_graded_booking\<lparr>b_estimatedBuyback := 1000\<rparr>)) ''booking-1'' ''admin-1'')) = [c]
          \<and> cm_commissionAmount c = Fin 100
          \<and> cm_status c = Pending
          \<and> cm_period c = ''2025-01''
          \<and> cm_resellerId c = ''r1'')
   \<and> mockCommissions (snd (completeBookingMock env0
          (ex_store (ex_graded_booking\<lparr>b_resellerId := None, b_resellerName := None\<rparr>))
          ''booking-1'' ''admin-1'')) = []"
proof -
  have sim: "\<not> shouldSimulateError env0 ''booking''"
    by (rule env0_no_simulation)
  let ?b1 = "ex_graded_booking\<lparr>b_estimatedBuyback := 1000\<rparr>"
  let ?b2 = "ex_graded_booking\<lparr>b_resellerId := None, b_resellerName := None\<rparr>"
  have f1: "List.find (has_id ''booking-1'') (mockBookings (ex_store ?b1)) = Some ?b1"
    and f2: "List.find (has_id ''booking-1'') (mockBookings (ex_store ?b2)) = Some ?b2"
    by (simp_all add: ex_store_simps has_id_def ex_graded_booking_simps)
  have g1: "b_status ?b1 = Graded" and g2: "b_status ?b2 = Graded"
    by (simp_all add: ex_graded_booking_simps)
  have tr: "truthy (b_resellerId ?b1) \<and> truthy (b_resellerName ?b1)"
    by (simp add: ex_graded_booking_simps)
  from conjunct2 [OF completion_creates_commission [OF sim f1 g1, of "''admin-1''"],
      unfolded if_P [OF tr]]
  obtain c where c: "mockCommissions (snd (completeBookingMock env0 (ex_store ?b1) ''booking-1'' ''admin-1''))
        = mockCommissions (ex_store ?b1) @ [c]"
    and whole: "\<forall>n. 0 \<le> n \<and> n \<le> 2 ^ 50 \<and> b_estimatedBuyback ?b1 = of_int n \<longrightarrow>
        cm_commissionAmount c = Fin (of_int (round (b_estimatedBuyback ?b1 * 10 / 100)))"
    and pending: "cm_status c = Pending"
    and created: "cm_createdAt c = now_iso env0"
    and period: "cm_period c = take 7 (cm_createdAt c)"
    and reseller: "Some (cm_resellerId c) = b_resellerId ?b1"
    by blast
  have "(0::int) \<le> 1000 \<and> (1000::int) \<le> 2 ^ 50 \<and> b_estimatedBuyback ?b1 = of_int 1000"
    by simp
  with whole have "cm_commissionAmount c = Fin (of_int (round (b_estimatedBuyback ?b1 * 10 / 100)))"
    by blast
  then have amount: "cm_commissionAmount c = Fin 100"
    by simp
  have c1: "mockCommissions (snd (completeBookingMock env0 (ex_store ?b1) ''booking-1'' ''admin-1'')) = [c]"
    using c by (simp add: ex_store_simps)
  have p1: "cm_period c = ''2025-01''"
    unfolding period created by (simp add: env0_now)
  have r1: "cm_resellerId c = ''r1''"
    using reseller by (simp add: ex_graded_booking_simps)
  from c1 amount pending p1 r1
  have a: "\<exists>c. mockCommissions (snd (completeBookingMock env0 (ex_store ?b1) ''booking-1'' ''admin-1'')) = [c]
          \<and> cm_commissionAmount c = Fin 100
          \<and> cm_status c = Pending
          \<and> cm_period c = ''2025-01''
          \<and> cm_resellerId c = ''r1''"
    by blast
  have b: "mockCommissions (snd (completeBookingMock env0 (ex_store ?b2) ''booking-1'' ''admin-1'')) = []"
    using conjunct2 [OF completion_creates_commission [OF sim f2 g2, of "''admin-1''"]]
    by (simp add: ex_store_simps)
  from sim a b show ?thesis by blast
qed

text \<open>
  Counterexample to C8 as stated: an estimated buyback of \<open>14.999999999999998\<close>, the
  double before 15. A tenth of it is below \<open>1.5\<close> and rounds to 1, but the product of
  doubles is \<open>1.5\<close> and \<open>Math.round\<close> gives the commission the amount 2.
\<close>

theorem completion_commission_amount_counterexample:
  "to_double (15 - 1 / 2 ^ 49) = Fin (15 - 1 / 2 ^ 49)
   \<and> (\<exists>c. mockCommissions (snd (completeBookingMock env0
                 (ex_store (ex_graded_booking\<lparr>b_estimatedBuyback := 15 - 1 / 2 ^ 49\<rparr>))
                 ''booking-1'' ''admin-1'')) = [c]
          \<and> cm_commissionAmount c = Fin 2)
   \<and> round ((15 - 1 / 2 ^ 49) * 10 / 100 :: rat) = 1"
proof -
  let ?b = "ex_graded_booking\<lparr>b_estimatedBuyback := 15 - 1 / 2 ^ 49\<rparr>"
  have sim: "\<not> shouldSimulateError env0 ''booking''"
    by (rule env0_no_simulation)
  have found: "List.find (has_id ''booking-1'') (mockBookings (ex_store ?b)) = Some ?b"
    by (simp add: ex_store_simps has_id_def ex_graded_booking_simps)
  have graded: "b_status ?b = Graded"
    by (simp add: ex_graded_booking_simps)
  have tr: "truthy (b_resellerId ?b) \<and> truthy (b_resellerName ?b)"
    by (simp add: ex_graded_booking_simps)
  have amount: "commission_amount (15 - 1 / 2 ^ 49) = Fin 2"
    unfolding commission_amount_def commissionPercent_def
    by (simp only: of_int_numeral ddiv_tenth dmul_below_fifteen) simp
  have "mockCommissions (snd (completeBookingMock env0 (ex_store ?b) ''booking-1'' ''admin-1''))
      = [new_commission env0 (?b\<lparr>b_status := Completed, b_completedAt := Some (now_iso env0)\<rparr>)]"
    unfolding completeBooking_graded(2) [OF sim found graded] if_P [OF tr]
    by (simp add: ex_store_simps)
  moreover have "cm_commissionAmount
      (new_commission env0 (?b\<lparr>b_status := Completed, b_completedAt := Some (now_iso env0)\<rparr>)) = Fin 2"
    unfolding amount [symmetric] by (simp add: new_commission_def)
  ultimately have "\<exists>c. mockCommissions (snd (completeBookingMock env0
                 (ex_store (ex_graded_booking\<lparr>b_estimatedBuyback := 15 - 1 / 2 ^ 49\<rparr>))
                 ''booking-1'' ''admin-1'')) = [c]
          \<and> cm_commissionAmount c = Fin 2"
    by blast
  moreover have "round ((15 - 1 / 2 ^ 49) * 10 / 100 :: rat) = 1"
    unfolding round_def by (rule floor_unique) simp_all
  ultimately show ?thesis using to_double_below_fifteen by blast
qed

subsection \<open>Job transitions\<close>

text \<open>
  Claim C9. The transition check for jobs takes a job in \<open>booked\<close> straight to
  \<open>en-route\<close>, as well as to \<open>routed\<close> and from there to \<open>en-route\<close>.
\<close>

theorem job_shortcut_legal:
  "isLegalJobTransition J_booked J_en_route
   \<and> isLegalJobTransition J_booked J_routed
   \<and> isLegalJobTransition J_routed J_en_route"
  by (simp add: isLegalJobTransition_def)

text \<open>
  The helper of the driver's view is a different check: it lets a driver edit a job only
  in \<open>routed\<close>, \<open>en-route\<close>, \<open>arrived\<close> and \<open>collected\<close>.
\<close>

lemma canDriverEditJob_statuses:
  "canDriverEditJob (Some j) = (j_status j \<in> {J_routed, J_en_route, J_arrived, J_collected})"
  by (cases "j_status j") (simp_all add: canDriverEditJob_def normalizeStatusForCheck_def)

subsection \<open>Commission summary\<close>

lemma whole_numberD: "whole_number (cm_commissionAmount c) \<Longrightarrow> cm_commissionAmount c = Fin (of_int (whole_amount c))"
  by (simp add: whole_number_def whole_amount_def)

lemma foldl_dadd_whole:
  assumes "\<forall>c\<in>set cs. whole_number (cm_commissionAmount c)"
    and "\<bar>m\<bar> + (\<Sum>c\<leftarrow>cs. \<bar>whole_amount c\<bar>) \<le> 2 ^ 53"
  shows "foldl (\<lambda>sum c. dadd sum (cm_commissionAmount c)) (Fin (of_int m)) cs
         = Fin (of_int (m + (\<Sum>c\<leftarrow>cs. whole_amount c)))"
  using assms
proof (induction cs arbitrary: m)
  case Nil
  show ?case by simp
next
  case (Cons c cs)
  have a: "cm_commissionAmount c = Fin (of_int (whole_amount c))"
    by (rule whole_numberD) (use Cons.prems(1) in simp)
  have b: "\<bar>m + whole_amount c\<bar> \<le> 2 ^ 53"
  proof -
    have "0 \<le> (\<Sum>c\<leftarrow>cs. \<bar>whole_amount c\<bar>)" by (rule sum_list_nonneg) auto
    with Cons.prems(2) show ?thesis by simp
  qed
  have s: "dadd (Fin (of_int m)) (cm_commissionAmount c) = Fin (of_int (m + whole_amount c))"
    unfolding a using b by (rule dadd_whole)
  have "foldl (\<lambda>sum c. dadd sum (cm_commissionAmount c)) (Fin (of_int (m + whole_amount c))) cs
         = Fin (of_int (m + whole_amount c + (\<Sum>c\<leftarrow>cs. whole_amount c)))"
  proof (rule Cons.IH)
    show "\<forall>c\<in>set cs. whole_number (cm_commissionAmount c)" using Cons.prems(1) by simp
    show "\<bar>m + whole_amount c\<bar> + (\<Sum>c\<leftarrow>cs. \<bar>whole_amount c\<bar>) \<le> 2 ^ 53"
      using Cons.prems(2) by simp
  qed
  then show ?case by (simp add: s add.assoc)
qed

lemma sum_amounts_whole:
  assumes "\<forall>c\<in>set cs. whole_number (cm_commissionAmount c)"
    and "(\<Sum>c\<leftarrow>cs. \<bar>whole_amount c\<bar>) \<le> 2 ^ 53"
  shows "sum_amounts cs = Fin (of_int (\<Sum>c\<leftarrow>cs. whole_amount c))"
  using foldl_dadd_whole [of cs 0] assms by (simp add: sum_amounts_def)

lemma sum_abs_filter:
  "(\<Sum>c\<leftarrow>filter P cs. \<bar>whole_amount c\<bar>) \<le> (\<Sum>c\<leftarrow>cs. \<bar>whole_amount c\<bar>)"
proof (induction cs)
  case Nil
  show ?case by simp
next
  case (Cons c cs)
  have "0 \<le> \<bar>whole_amount c\<bar>" by simp
  with Cons show ?case by (cases "P c") simp_all
qed

lemma abs_sum_list_le: "\<bar>\<Sum>c\<leftarrow>cs. whole_amount c\<bar> \<le> (\<Sum>c\<leftarrow>cs. \<bar>whole_amount c\<bar>)"
  by (induction cs) simp_all

lemma sum_by_status:
  "(\<Sum>c\<leftarrow>cs. whole_amount c)
     = (\<Sum>c\<leftarrow>filter (\<lambda>c. cm_status c = Pending) cs. whole_amount c)
       + (\<Sum>c\<leftarrow>filter (\<lambda>c. cm_status c = Approved) cs. whole_amount c)
       + (\<Sum>c\<leftarrow>filter (\<lambda>c. cm_status c = Paid) cs. whole_amount c)"
proof (induction cs)
  case Nil
  show ?case by simp
next
  case (Cons c cs)
  then show ?case by (cases "cm_status c") simp_all
qed

lemma assign_key_whole:
  assumes "map snd bp = map whole_value vs"
    and "(\<Sum>v\<leftarrow>vs. \<bar>v\<bar>) + \<bar>a\<bar> \<le> 2 ^ 53"
  shows "\<exists>vs'. map snd (assign_key k
                 (js_plus (or_zero (case map_of bp k of Some v \<Rightarrow> v | None \<Rightarrow> Undefined))
                    (Fin (of_int a))) bp)
               = map whole_value vs'
           \<and> sum_list vs' = sum_list vs + a
           \<and> (\<Sum>v\<leftarrow>vs'. \<bar>v\<bar>) \<le> (\<Sum>v\<leftarrow>vs. \<bar>v\<bar>) + \<bar>a\<bar>"
  using assms
proof (induction bp arbitrary: vs)
  case Nil
  then have vs: "vs = []" by simp
  have "\<bar>0 + a\<bar> \<le> 2 ^ 53" using Nil.prems(2) by (simp add: vs)
  then have "dadd (Fin (of_int 0)) (Fin (of_int a)) = Fin (of_int (0 + a))" by (rule dadd_whole)
  then have "map snd (assign_key k (js_plus (or_zero Undefined) (Fin (of_int a))) [])
             = map whole_value [a]" by simp
  then show ?case unfolding vs by (intro exI [of _ "[a]"]) simp
next
  case (Cons p bp)
  obtain k' v' where p: "p = (k', v')" by (cases p)
  from Cons.prems(1) obtain w ws where vs: "vs = w # ws" and v': "v' = whole_value w"
    and ws: "map snd bp = map whole_value ws"
    by (cases vs) (auto simp: p)
  show ?case
  proof (cases "k' = k")
    case True
    have "0 \<le> (\<Sum>v\<leftarrow>ws. \<bar>v\<bar>)" by (rule sum_list_nonneg) auto
    then have "\<bar>w + a\<bar> \<le> 2 ^ 53" using Cons.prems(2) by (simp add: vs)
    then have "dadd (Fin (of_int w)) (Fin (of_int a)) = Fin (of_int (w + a))" by (rule dadd_whole)
    then have "map snd (assign_key k
                 (js_plus (or_zero (case map_of (p # bp) k of Some v \<Rightarrow> v | None \<Rightarrow> Undefined))
                    (Fin (of_int a))) (p # bp))
               = map whole_value ((w + a) # ws)"
      by (simp add: p True v' ws)
    then show ?thesis unfolding vs by (intro exI [of _ "(w + a) # ws"]) simp
  next
    case False
    have "0 \<le> \<bar>w\<bar>" by simp
    then have "(\<Sum>v\<leftarrow>ws. \<bar>v\<bar>) + \<bar>a\<bar> \<le> 2 ^ 53" using Cons.prems(2) by (simp add: vs)
    from Cons.IH [OF ws this] obtain ws' where
      ih: "map snd (assign_key k
                 (js_plus (or_zero (case map_of bp k of Some v \<Rightarrow> v | None \<Rightarrow> Undefined))
                    (Fin (of_int a))) bp) = map whole_value ws'"
        "sum_list ws' = sum_list ws + a"
        "(\<Sum>v\<leftarrow>ws'. \<bar>v\<bar>) \<le> (\<Sum>v\<leftarrow>ws. \<bar>v\<bar>) + \<bar>a\<bar>"
      by blast
    have "map snd (assign_key k
                 (js_plus (or_zero (case map_of (p # bp) k of Some v \<Rightarrow> v | None \<Rightarrow> Undefined))
                    (Fin (of_int a))) (p # bp))
               = map whole_value (w # ws')"
      using False ih(1) by (simp add: p v')
    then show ?thesis unfolding vs using ih(2,3) by (intro exI [of _ "w # ws'"]) simp
  qed
qed

lemma foldl_periods_whole:
  assumes "\<forall>c\<in>set cs. whole_number (cm_commissionAmount c)"
    and "\<forall>c\<in>set cs. cm_period c \<notin> set object_prototype_names"
    and "map snd bp = map whole_value vs"
    and "(\<Sum>v\<leftarrow>vs. \<bar>v\<bar>) + (\<Sum>c\<leftarrow>cs. \<bar>whole_amount c\<bar>) \<le> 2 ^ 53"
  shows "\<exists>vs'. map snd (foldl (\<lambda>bp c. set_property (cm_period c)
                     (js_plus (or_zero (get_property bp (cm_period c))) (cm_commissionAmount c)) bp)
                   bp cs) = map whole_value vs'
           \<and> sum_list vs' = sum_list vs + (\<Sum>c\<leftarrow>cs. whole_amount c)"
  using assms
proof (induction cs arbitrary: bp vs)
  case Nil
  then show ?case by auto
next
  case (Cons c cs)
  let ?k = "cm_period c"
  let ?bp = "set_property ?k (js_plus (or_zero (get_property bp ?k)) (cm_commissionAmount c)) bp"
  have a: "cm_commissionAmount c = Fin (of_int (whole_amount c))"
    by (rule whole_numberD) (use Cons.prems(1) in simp)
  have k: "?k \<notin> set object_prototype_names" using Cons.prems(2) by simp
  then have k': "?k \<noteq> ''__proto__''" by (auto simp: object_prototype_names_def)
  have step: "?bp = assign_key ?k
                 (js_plus (or_zero (case map_of bp ?k of Some v \<Rightarrow> v | None \<Rightarrow> Undefined))
                    (Fin (of_int (whole_amount c)))) bp"
    using k k' by (simp add: set_property_def get_property_def a split: option.split)
  have "0 \<le> (\<Sum>c\<leftarrow>cs. \<bar>whole_amount c\<bar>)" by (rule sum_list_nonneg) auto
  then have "(\<Sum>v\<leftarrow>vs. \<bar>v\<bar>) + \<bar>whole_amount c\<bar> \<le> 2 ^ 53" using Cons.prems(4) by simp
  from assign_key_whole [OF Cons.prems(3) this, of ?k] obtain ws where
    ws: "map snd ?bp = map whole_value ws" "sum_list ws = sum_list vs + whole_amount c"
      "(\<Sum>v\<leftarrow>ws. \<bar>v\<bar>) \<le> (\<Sum>v\<leftarrow>vs. \<bar>v\<bar>) + \<bar>whole_amount c\<bar>"
    unfolding step by blast
  have "\<exists>vs'. map snd (foldl (\<lambda>bp c. set_property (cm_period c)
                     (js_plus (or_zero (get_property bp (cm_period c))) (cm_commissionAmount c)) bp)
                   ?bp cs) = map whole_value vs'
           \<and> sum_list vs' = sum_list ws + (\<Sum>c\<leftarrow>cs. whole_amount c)"
  proof (rule Cons.IH [OF _ _ ws(1)])
    show "\<forall>c\<in>set cs. whole_number (cm_commissionAmount c)" using Cons.prems(1) by simp
    show "\<forall>c\<in>set cs. cm_period c \<notin> set object_prototype_names" using Cons.prems(2) by simp
    show "(\<Sum>v\<leftarrow>ws. \<bar>v\<bar>) + (\<Sum>c\<leftarrow>cs. \<bar>whole_amount c\<bar>) \<le> 2 ^ 53"
      using ws(3) Cons.prems(4) by simp
  qed
  then show ?case by (simp add: ws(2) add.assoc)
qed

lemma group_by_period_whole:
  assumes "\<forall>c\<in>set cs. whole_number (cm_commissionAmount c)"
    and "\<forall>c\<in>set cs. cm_period c \<notin> set object_prototype_names"
    and "(\<Sum>c\<leftarrow>cs. \<bar>whole_amount c\<bar>) \<le> 2 ^ 53"
  shows "\<exists>vs. map snd (group_by_period cs) = map whole_value vs
           \<and> sum_list vs = (\<Sum>c\<leftarrow>cs. whole_amount c)"
  using foldl_periods_whole [OF assms(1,2), of "[]" "[]"] assms(3)
  by (simp add: group_by_period_def)

lemma sum_abs_by_status:
  "(\<Sum>c\<leftarrow>cs. \<bar>whole_amount c\<bar>)
     = (\<Sum>c\<leftarrow>filter (\<lambda>c. cm_status c = Pending) cs. \<bar>whole_amount c\<bar>)
       + (\<Sum>c\<leftarrow>filter (\<lambda>c. cm_status c = Approved) cs. \<bar>whole_amount c\<bar>)
       + (\<Sum>c\<leftarrow>filter (\<lambda>c. cm_status c = Paid) cs. \<bar>whole_amount c\<bar>)"
proof (induction cs)
  case Nil
  show ?case by simp
next
  case (Cons c cs)
  then show ?case by (cases "cm_status c") simp_all
qed

lemma whole_part_of_int: "whole_part (Fin (of_int n)) = n"
  by (simp add: whole_part_def)

lemma commission_summary_whole:
  assumes visible: "getCommissionsMock e st u None = Inr cs"
    and whole: "\<forall>c\<in>set cs. whole_number (cm_commissionAmount c)"
    and bound: "(\<Sum>c\<leftarrow>cs. \<bar>whole_amount c\<bar>) \<le> 2 ^ 53"
    and periods: "\<forall>c\<in>set cs. cm_period c \<notin> set object_prototype_names"
  shows "\<exists>s vs. getCommissionSummaryMock e st u = Inr s
     \<and> totalPending s = Fin (of_int (\<Sum>c\<leftarrow>filter (\<lambda>c. cm_status c = Pending) cs. whole_amount c))
     \<and> totalApproved s = Fin (of_int (\<Sum>c\<leftarrow>filter (\<lambda>c. cm_status c = Approved) cs. whole_amount c))
     \<and> totalPaid s = Fin (of_int (\<Sum>c\<leftarrow>filter (\<lambda>c. cm_status c = Paid) cs. whole_amount c))
     \<and> totalAmount s = Fin (of_int (\<Sum>c\<leftarrow>cs. whole_amount c))
     \<and> map snd (byPeriod s) = map whole_value vs
     \<and> sum_list vs = (\<Sum>c\<leftarrow>cs. whole_amount c)"
proof -
  have f: "\<forall>c\<in>set (filter P cs). whole_number (cm_commissionAmount c)" for P
    using whole by simp
  have fb: "(\<Sum>c\<leftarrow>filter P cs. \<bar>whole_amount c\<bar>) \<le> 2 ^ 53" for P
    using sum_abs_filter [of P cs] bound by linarith
  obtain vs where vs: "map snd (group_by_period cs) = map whole_value vs"
      "sum_list vs = (\<Sum>c\<leftarrow>cs. whole_amount c)"
    using group_by_period_whole [OF whole periods bound] by blast
  have "getCommissionSummaryMock e st u =
      Inr \<lparr>totalPending = Fin (of_int (\<Sum>c\<leftarrow>filter (\<lambda>c. cm_status c = Pending) cs. whole_amount c)),
           totalApproved = Fin (of_int (\<Sum>c\<leftarrow>filter (\<lambda>c. cm_status c = Approved) cs. whole_amount c)),
           totalPaid = Fin (of_int (\<Sum>c\<leftarrow>filter (\<lambda>c. cm_status c = Paid) cs. whole_amount c)),
           totalAmount = Fin (of_int (\<Sum>c\<leftarrow>cs. whole_amount c)),
           byPeriod = group_by_period cs\<rparr>"
    by (simp add: getCommissionSummaryMock_def visible sum_amounts_whole [OF whole bound]
          sum_amounts_whole [OF f fb])
  with vs show ?thesis by (simp, intro exI [of _ vs], simp)
qed

text \<open>
  Claim C10, as amended. Take the commissions that \<open>getCommissions\<close> shows to the user.
  If every amount is a whole number, the absolute values of the amounts add up to at
  most \<open>2 ^ 53\<close>, and no period is the name of a member of \<open>Object.prototype\<close>, then every
  total of the summary is the exact sum of the amounts it counts, the total amount
  is the sum of the pending, approved and paid totals, in exact and in double-precision
  arithmetic, and the values of \<open>byPeriod\<close> are whole numbers that add up to the total
  amount.
\<close>

theorem commission_summary_totals:
  assumes visible: "getCommissionsMock e st u None = Inr cs"
    and whole: "\<forall>c\<in>set cs. whole_number (cm_commissionAmount c)"
    and bound: "(\<Sum>c\<leftarrow>cs. \<bar>whole_amount c\<bar>) \<le> 2 ^ 53"
    and periods: "\<forall>c\<in>set cs. cm_period c \<notin> set object_prototype_names"
  shows "\<exists>s vs. getCommissionSummaryMock e st u = Inr s
     \<and> totalPending s = Fin (of_int (\<Sum>c\<leftarrow>filter (\<lambda>c. cm_status c = Pending) cs. whole_amount c))
     \<and> totalApproved s = Fin (of_int (\<Sum>c\<leftarrow>filter (\<lambda>c. cm_status c = Approved) cs. whole_amount c))
     \<and> totalPaid s = Fin (of_int (\<Sum>c\<leftarrow>filter (\<lambda>c. cm_status c = Paid) cs. whole_amount c))
     \<and> totalAmount s = Fin (of_int (\<Sum>c\<leftarrow>cs. whole_amount c))
     \<and> whole_part (totalAmount s)
         = whole_part (totalPending s) + whole_part (totalApproved s) + whole_part (totalPaid s)
     \<and> totalAmount s = dadd (dadd (totalPending s) (totalApproved s)) (totalPaid s)
     \<and> map snd (byPeriod s) = map whole_value vs
     \<and> sum_list vs = whole_part (totalAmount s)"
proof -
  let ?p = "\<Sum>c\<leftarrow>filter (\<lambda>c. cm_status c = Pending) cs. whole_amount c"
  let ?a = "\<Sum>c\<leftarrow>filter (\<lambda>c. cm_status c = Approved) cs. whole_amount c"
  let ?d = "\<Sum>c\<leftarrow>filter (\<lambda>c. cm_status c = Paid) cs. whole_amount c"
  let ?t = "\<Sum>c\<leftarrow>cs. whole_amount c"
  from commission_summary_whole [OF visible whole bound periods]
  obtain s vs where s: "getCommissionSummaryMock e st u = Inr s"
    and tp: "totalPending s = Fin (of_int ?p)"
    and ta: "totalApproved s = Fin (of_int ?a)"
    and td: "totalPaid s = Fin (of_int ?d)"
    and tt: "totalAmount s = Fin (of_int ?t)"
    and bp: "map snd (byPeriod s) = map whole_value vs"
    and sv: "sum_list vs = ?t"
    by blast
  have split: "?t = ?p + ?a + ?d"
    by (rule sum_by_status)
  have abs_split: "(\<Sum>c\<leftarrow>cs. \<bar>whole_amount c\<bar>)
     = (\<Sum>c\<leftarrow>filter (\<lambda>c. cm_status c = Pending) cs. \<bar>whole_amount c\<bar>)
       + (\<Sum>c\<leftarrow>filter (\<lambda>c. cm_status c = Approved) cs. \<bar>whole_amount c\<bar>)
       + (\<Sum>c\<leftarrow>filter (\<lambda>c. cm_status c = Paid) cs. \<bar>whole_amount c\<bar>)"
    by (rule sum_abs_by_status)
  have ap: "\<bar>?p\<bar> \<le> (\<Sum>c\<leftarrow>filter (\<lambda>c. cm_status c = Pending) cs. \<bar>whole_amount c\<bar>)"
    and aa: "\<bar>?a\<bar> \<le> (\<Sum>c\<leftarrow>filter (\<lambda>c. cm_status c = Approved) cs. \<bar>whole_amount c\<bar>)"
    and ad: "\<bar>?d\<bar> \<le> (\<Sum>c\<leftarrow>filter (\<lambda>c. cm_status c = Paid) cs. \<bar>whole_amount c\<bar>)"
    by (rule abs_sum_list_le)+
  have b1: "\<bar>?p + ?a\<bar> \<le> 2 ^ 53" using ap aa ad abs_split bound by linarith
  have b2: "\<bar>(?p + ?a) + ?d\<bar> \<le> 2 ^ 53" using ap aa ad abs_split bound by linarith
  have exact: "whole_part (totalAmount s)
         = whole_part (totalPending s) + whole_part (totalApproved s) + whole_part (totalPaid s)"
    unfolding tp ta td tt whole_part_of_int by (rule split)
  have double: "totalAmount s = dadd (dadd (totalPending s) (totalApproved s)) (totalPaid s)"
    unfolding tp ta td tt dadd_whole [OF b1] dadd_whole [OF b2] split ..
  have sv': "sum_list vs = whole_part (totalAmount s)"
    unfolding tt whole_part_of_int by (rule sv)
  from s tp ta td tt exact double bp sv' show ?thesis by blast
qed

text \<open>
  Witness for C10: a paid commission of 100 in 2024-12 and a pending one of 50 and an
  approved one of 30 in 2025-01 give the totals 50, 30, 100 and 180 and the periods 100
  and 80.
\<close>

theorem commission_summary_totals_witness:
  "getCommissionsMock env0 (billing_store ex_commissions []) None None = Inr ex_commissions
   \<and> map (\<lambda>c. whole_number (cm_commissionAmount c)) ex_commissions = [True, True, True]
   \<and> (\<Sum>c\<leftarrow>ex_commissions. \<bar>whole_amount c\<bar>) = 180
   \<and> map (\<lambda>c. cm_period c \<in> set object_prototype_names) ex_commissions = [False, False, False]
   \<and> (\<exists>s. getCommissionSummaryMock env0 (billing_store ex_commissions []) None = Inr s
          \<and> totalPending s = Fin 50 \<and> totalApproved s = Fin 30 \<and> totalPaid s = Fin 100
          \<and> totalAmount s = Fin 180
          \<and> totalAmount s = dadd (dadd (totalPending s) (totalApproved s)) (totalPaid s)
          \<and> byPeriod s = [(''2024-12'', Num (Fin 100)), (''2025-01'', Num (Fin 80))])"
proof -
  have visible: "getCommissionsMock env0 (billing_store ex_commissions []) None None = Inr ex_commissions"
    by (simp add: getCommissionsMock_def env0_no_simulation apply_filter_def filter_by_role_def
          billing_store_def)
  have whole: "\<forall>c\<in>set ex_commissions. whole_number (cm_commissionAmount c)"
    by (simp add: ex_commissions_def ex_commission_def whole_number_def whole_part_def)
  have bound: "(\<Sum>c\<leftarrow>ex_commissions. \<bar>whole_amount c\<bar>) \<le> 2 ^ 53"
    by (simp add: ex_commissions_def ex_commission_def whole_amount_def whole_part_def)
  have periods: "\<forall>c\<in>set ex_commissions. cm_period c \<notin> set object_prototype_names"
    by (simp add: ex_commissions_def ex_commission_def object_prototype_names_def)
  from commission_summary_totals [OF visible whole bound periods]
  obtain s where s: "getCommissionSummaryMock env0 (billing_store ex_commissions []) None = Inr s"
    and tp: "totalPending s
       = Fin (of_int (\<Sum>c\<leftarrow>filter (\<lambda>c. cm_status c = Pending) ex_commissions. whole_amount c))"
    and ta: "totalApproved s
       = Fin (of_int (\<Sum>c\<leftarrow>filter (\<lambda>c. cm_status c = Approved) ex_commissions. whole_amount c))"
    and td: "totalPaid s
       = Fin (of_int (\<Sum>c\<leftarrow>filter (\<lambda>c. cm_status c = Paid) ex_commissions. whole_amount c))"
    and tt: "totalAmount s = Fin (of_int (\<Sum>c\<leftarrow>ex_commissions. whole_amount c))"
    and d: "totalAmount s = dadd (dadd (totalPending s) (totalApproved s)) (totalPaid s)"
    by blast
  have v: "totalPending s = Fin 50" "totalApproved s = Fin 30" "totalPaid s = Fin 100"
      "totalAmount s = Fin 180"
    unfolding tp ta td tt
    by (simp_all add: ex_commissions_def ex_commission_def whole_amount_def whole_part_def)
  have "byPeriod s = group_by_period ex_commissions"
    using s by (auto simp: getCommissionSummaryMock_def visible)
  also have "\<dots> = [(''2024-12'', Num (Fin 100)), (''2025-01'', Num (Fin 80))]"
    by (simp add: group_by_period_def ex_commissions_def ex_commission_def get_property_def
          set_property_def object_prototype_names_def to_double_numeral)
  finally have p: "byPeriod s = [(''2024-12'', Num (Fin 100)), (''2025-01'', Num (Fin 80))]" .
  have whole': "map (\<lambda>c. whole_number (cm_commissionAmount c)) ex_commissions = [True, True, True]"
    by (simp add: ex_commissions_def ex_commission_def whole_number_def whole_part_def)
  have bound': "(\<Sum>c\<leftarrow>ex_commissions. \<bar>whole_amount c\<bar>) = 180"
    by (simp add: ex_commissions_def ex_commission_def whole_amount_def whole_part_def)
  have periods': "map (\<lambda>c. cm_period c \<in> set object_prototype_names) ex_commissions
      = [False, False, False]"
    by (simp add: ex_commissions_def ex_commission_def object_prototype_names_def)
  from visible whole' bound' periods' s v d p show ?thesis by blast
qed

text \<open>
  Counterexample to C10 as stated: commissions of 1, of \<open>2 ^ 53\<close> and of 1, the first and
  the third pending in 2025-01, the second paid in 2024-12. The total amount adds
  them in this order, and in doubles \<open>1 + 2 ^ 53\<close> is \<open>2 ^ 53\<close> and so is \<open>2 ^ 53 + 1\<close>;
  the pending total is 2. So the total amount is \<open>2 ^ 53\<close>, two less than the
  sum of the three totals and than the sum of the two periods.
\<close>

theorem commission_summary_totals_counterexample:
  "getCommissionSummaryMock env0 (billing_store big_commissions []) None
     = Inr \<lparr>totalPending = Fin 2, totalApproved = Fin 0, totalPaid = Fin 9007199254740992,
            totalAmount = Fin 9007199254740992,
            byPeriod = [(''2025-01'', Num (Fin 2)), (''2024-12'', Num (Fin 9007199254740992))]\<rparr>
   \<and> dadd (dadd (Fin 2) (Fin 0)) (Fin 9007199254740992) = Fin 9007199254740994
   \<and> dadd (Fin 2) (Fin 9007199254740992) = Fin 9007199254740994
   \<and> Fin 9007199254740994 \<noteq> Fin 9007199254740992"
  by (simp add: getCommissionSummaryMock_def getCommissionsMock_def env0_no_simulation
        apply_filter_def filter_by_role_def billing_store_def big_commissions_def
        ex_commission_def sum_amounts_def group_by_period_def get_property_def set_property_def
        object_prototype_names_def to_double_one to_double_numeral to_double_above_2_53)

text \<open>
  A period that is the name of a member of \<open>Object.prototype\<close> is outside the amended
  claim: the first read of \<open>byPeriod[''constructor'']\<close> finds the inherited function, which
  is truthy, and the sum is a string.
\<close>

lemma group_by_period_inherited_name:
  "group_by_period [ex_commission\<lparr>cm_period := ''constructor''\<rparr>] = [(''constructor'', Str)]"
  by (simp add: group_by_period_def get_property_def set_property_def object_prototype_names_def)

end
